theory Spec2Isabelle
  imports Complex_Main "HOL-Library.Char_ord" "HOL-Library.List_Lexorder"
begin

section \<open>Data model (src/lib/database.types.ts)\<close>

text \<open>
  The rows of the five tables, as the \<open>Row\<close> types of \<open>Database["public"]["Tables"]\<close>
  declare them. Several tables share column names (\<open>id\<close>, \<open>user_id\<close>, \<open>created_at\<close>),
  so every field carries a short table prefix: \<open>tx_amount\<close> is \<open>transactions.amount\<close>.
  A nullable column is an \<open>option\<close>. A \<open>number\<close> is a finite IEEE-754 double, carried
  as the rational it denotes: comparing two doubles is exact, and the one subtraction of
  the code rounds (see \<open>double_minus\<close> below). NaN and the infinities cannot be stored
  (JSON has neither) and are not values of the model. Strings are byte strings (UTF-8).
\<close>

type_synonym ident = string
type_synonym timestamp = string

datatype transaction_type = Expense | Income | Refund | Investment | Savings | Transfer

datatype transaction_category = Need | Want | Savings_category | Investments

datatype payment_method = Cash | Card | Upi | Netbanking | Cheque | Other

datatype transaction_status = Active | Cancelled | Refunded | Partial_refund

datatype history_action = Created | Updated | Deleted | Refunded_action | Amount_reduced

datatype allocation_kind = Percentage | Amount

datatype json =
    JNull
  | JBool bool
  | JNumber rat
  | JString string
  | JArray "json list"
  | JObject "(string \<times> json) list"

record profile =
  pf_id :: ident
  pf_email :: string
  pf_full_name :: "string option"
  pf_avatar_url :: "string option"
  pf_created_at :: timestamp
  pf_updated_at :: timestamp

record budget_config =
  bc_id :: ident
  bc_user_id :: ident
  bc_monthly_salary :: rat
  bc_budget_percentage :: rat
  bc_allocation_need :: rat
  bc_allocation_want :: rat
  bc_allocation_savings :: rat
  bc_allocation_investments :: rat
  bc_created_at :: timestamp
  bc_updated_at :: timestamp

record investment_portfolio =
  ip_id :: ident
  ip_user_id :: ident
  ip_name :: string
  ip_allocation_type :: allocation_kind
  ip_allocation_value :: rat
  ip_allocated_amount :: rat
  ip_invested_amount :: rat
  ip_allow_direct_investment :: bool
  ip_is_active :: bool
  ip_created_at :: timestamp
  ip_updated_at :: timestamp

record transaction =
  tx_id :: ident
  tx_user_id :: ident
  tx_type :: transaction_type
  tx_category :: transaction_category
  tx_amount :: rat
  tx_description :: "string option"
  tx_notes :: "string option"
  tx_date :: string
  tx_time :: "string option"
  tx_payment_type :: "payment_method option"
  tx_spent_for :: "string option"
  tx_tag :: "string option"
  tx_portfolio_id :: "ident option"
  tx_investment_type :: "string option"
  tx_refund_for :: "ident option"
  tx_original_transaction_id :: "ident option"
  tx_status :: transaction_status
  tx_is_deleted :: bool
  tx_created_at :: timestamp
  tx_updated_at :: timestamp
  tx_deleted_at :: "timestamp option"

record transaction_history =
  th_id :: ident
  th_transaction_id :: ident
  th_user_id :: ident
  th_action :: history_action
  th_old_values :: "json option"
  th_new_values :: "json option"
  th_changes_description :: "string option"
  th_created_at :: timestamp
  th_created_by :: "ident option"

section \<open>The backend, as the hook sees it\<close>

text \<open>
  The hosted datastore is not part of the repository. It is modelled as the five tables
  (lists of rows, in insertion order) and a log of the requests received. A request that
  fails writes nothing; which requests fail is decided by the environment (\<open>outage\<close>:
  the k-th request of an operation fails when \<open>outage e k\<close> holds). Row-level security,
  triggers and constraints other than the primary keys are outside the model.
\<close>

datatype table_name =
  Profiles | Budget_configs | Investment_portfolios | Transactions | Transaction_history

datatype request =
    Select table_name
  | Insert table_name
  | Upsert table_name
  | Update table_name
  | Delete table_name

datatype error =
    Message string
  | Unavailable
  | PGRST116
  | Unique_violation
  | Not_null_violation

record database =
  profiles_table :: "profile list"
  budget_configs_table :: "budget_config list"
  investment_portfolios_table :: "investment_portfolio list"
  transactions_table :: "transaction list"
  transaction_history_table :: "transaction_history list"

record 'd backend =
  tables :: 'd
  requests :: "request list"

record auth_user =
  uid :: ident
  email :: "string option"

text \<open>
  What an operation reads from its surroundings: the signed-in user of \<open>useAuth\<close>, the
  clock (\<open>new Date().toISOString()\<close> and \<open>new Date().toTimeString()\<close>), the rendering
  of a number inside a template string, the failing requests, and for each table the
  row that the database builds for an insert that supplies no column (generated id,
  timestamps, column defaults).
\<close>

record env =
  user :: "auth_user option"
  outage :: "nat \<Rightarrow> bool"
  now_iso :: timestamp
  now_time :: string
  number_text :: "rat \<Rightarrow> string"
  new_profile :: profile
  new_budget_config :: budget_config
  new_portfolio :: investment_portfolio
  new_transaction :: transaction
  new_history :: transaction_history

text \<open>A table of the database: how to read it, write it and find a row's primary key.\<close>

record ('d, 'r) table =
  name :: table_name
  rows :: "'d \<Rightarrow> 'r list"
  put :: "'r list \<Rightarrow> 'd \<Rightarrow> 'd"
  key :: "'r \<Rightarrow> ident"

definition from_profiles :: "(database, profile) table" where
  "from_profiles = \<lparr>name = Profiles, rows = profiles_table,
     put = (\<lambda>rs d. d\<lparr>profiles_table := rs\<rparr>), key = pf_id\<rparr>"

definition from_budget_configs :: "(database, budget_config) table" where
  "from_budget_configs = \<lparr>name = Budget_configs, rows = budget_configs_table,
     put = (\<lambda>rs d. d\<lparr>budget_configs_table := rs\<rparr>), key = bc_id\<rparr>"

definition from_investment_portfolios :: "(database, investment_portfolio) table" where
  "from_investment_portfolios = \<lparr>name = Investment_portfolios, rows = investment_portfolios_table,
     put = (\<lambda>rs d. d\<lparr>investment_portfolios_table := rs\<rparr>), key = ip_id\<rparr>"

definition from_transactions :: "(database, transaction) table" where
  "from_transactions = \<lparr>name = Transactions, rows = transactions_table,
     put = (\<lambda>rs d. d\<lparr>transactions_table := rs\<rparr>), key = tx_id\<rparr>"

definition from_transaction_history :: "(database, transaction_history) table" where
  "from_transaction_history = \<lparr>name = Transaction_history, rows = transaction_history_table,
     put = (\<lambda>rs d. d\<lparr>transaction_history_table := rs\<rparr>), key = th_id\<rparr>"

text \<open>Sending the k-th request of an operation: it is logged, and it may fail.\<close>

definition send :: "(nat \<Rightarrow> bool) \<Rightarrow> nat \<Rightarrow> request \<Rightarrow> 'd backend \<Rightarrow> bool \<times> 'd backend" where
  "send fails k r b = (fails k, b\<lparr>requests := requests b @ [r]\<rparr>)"

definition store :: "('d, 'r) table \<Rightarrow> 'r list \<Rightarrow> 'd backend \<Rightarrow> 'd backend" where
  "store T rs b = b\<lparr>tables := put T rs (tables b)\<rparr>"

text \<open>\<open>.single()\<close>: exactly one row, or the error PGRST116.\<close>

definition single :: "'r list \<Rightarrow> error + 'r" where
  "single rs = (case rs of [r] \<Rightarrow> Inr r | _ \<Rightarrow> Inl PGRST116)"

text \<open>\<open>.from(T).select("*").eq(...).single()\<close>\<close>

definition select_single ::
  "(nat \<Rightarrow> bool) \<Rightarrow> nat \<Rightarrow> ('d, 'r) table \<Rightarrow> ('r \<Rightarrow> bool) \<Rightarrow> 'd backend \<Rightarrow> (error + 'r) \<times> 'd backend" where
  "select_single fails k T P b =
     (case send fails k (Select (name T)) b of (down, b1) \<Rightarrow>
        if down then (Inl Unavailable, b1)
        else (single (filter P (rows T (tables b1))), b1))"

text \<open>\<open>.from(T).select("*").eq(...)\<close> with the ordering and limit given as \<open>shape\<close>.\<close>

definition select_rows ::
  "(nat \<Rightarrow> bool) \<Rightarrow> nat \<Rightarrow> ('d, 'r) table \<Rightarrow> ('r \<Rightarrow> bool) \<Rightarrow> ('r list \<Rightarrow> 'r list) \<Rightarrow> 'd backend
     \<Rightarrow> (error + 'r list) \<times> 'd backend" where
  "select_rows fails k T P shape b =
     (case send fails k (Select (name T)) b of (down, b1) \<Rightarrow>
        if down then (Inl Unavailable, b1)
        else (Inr (shape (filter P (rows T (tables b1)))), b1))"

text \<open>
  \<open>.from(T).insert(row)\<close>, with or without \<open>.select().single()\<close>: the row is appended
  unless its primary key is taken.
\<close>

definition insert_row ::
  "(nat \<Rightarrow> bool) \<Rightarrow> nat \<Rightarrow> ('d, 'r) table \<Rightarrow> 'r \<Rightarrow> 'd backend \<Rightarrow> (error + 'r) \<times> 'd backend" where
  "insert_row fails k T r b =
     (case send fails k (Insert (name T)) b of (down, b1) \<Rightarrow>
        if down then (Inl Unavailable, b1)
        else if key T r \<in> set (map (key T) (rows T (tables b1))) then (Inl Unique_violation, b1)
        else (Inr r, store T (rows T (tables b1) @ [r]) b1))"

text \<open>
  \<open>.from(T).upsert(values)\<close> on the primary key: the row with this key takes the
  supplied columns, or a new row is built from the defaults. The row written is returned
  (\<open>.select().single()\<close>).
\<close>

definition upsert_row ::
  "(nat \<Rightarrow> bool) \<Rightarrow> nat \<Rightarrow> ('d, 'r) table \<Rightarrow> ident \<Rightarrow> ('r \<Rightarrow> 'r) \<Rightarrow> 'r \<Rightarrow> 'd backend \<Rightarrow> (error + 'r) \<times> 'd backend" where
  "upsert_row fails k T i f fresh b =
     (case send fails k (Upsert (name T)) b of (down, b1) \<Rightarrow>
        if down then (Inl Unavailable, b1)
        else (case find (\<lambda>r. key T r = i) (rows T (tables b1)) of
                Some r0 \<Rightarrow>
                  (Inr (f r0),
                   store T (map (\<lambda>r. if key T r = i then f r else r) (rows T (tables b1))) b1)
              | None \<Rightarrow> (Inr (f fresh), store T (rows T (tables b1) @ [f fresh]) b1)))"

text \<open>\<open>.from(T).update(values).eq(...)\<close>: every matching row takes the supplied columns.\<close>

definition update_where ::
  "(nat \<Rightarrow> bool) \<Rightarrow> nat \<Rightarrow> ('d, 'r) table \<Rightarrow> ('r \<Rightarrow> 'r) \<Rightarrow> ('r \<Rightarrow> bool) \<Rightarrow> 'd backend \<Rightarrow> (error + unit) \<times> 'd backend" where
  "update_where fails k T f P b =
     (case send fails k (Update (name T)) b of (down, b1) \<Rightarrow>
        if down then (Inl Unavailable, b1)
        else (Inr (), store T (map (\<lambda>r. if P r then f r else r) (rows T (tables b1))) b1))"

text \<open>
  \<open>.from(T).update(values).eq(...).select().single()\<close>: the updated row is returned when
  exactly one row matches; otherwise the request fails and nothing is written.
\<close>

definition update_single ::
  "(nat \<Rightarrow> bool) \<Rightarrow> nat \<Rightarrow> ('d, 'r) table \<Rightarrow> ('r \<Rightarrow> 'r) \<Rightarrow> ('r \<Rightarrow> bool) \<Rightarrow> 'd backend \<Rightarrow> (error + 'r) \<times> 'd backend" where
  "update_single fails k T f P b =
     (case send fails k (Update (name T)) b of (down, b1) \<Rightarrow>
        if down then (Inl Unavailable, b1)
        else (case single (map f (filter P (rows T (tables b1)))) of
                Inl err \<Rightarrow> (Inl err, b1)
              | Inr r \<Rightarrow>
                  (Inr r, store T (map (\<lambda>r. if P r then f r else r) (rows T (tables b1))) b1)))"

text \<open>\<open>.from(T).delete().eq(...)\<close>\<close>

definition delete_where ::
  "(nat \<Rightarrow> bool) \<Rightarrow> nat \<Rightarrow> ('d, 'r) table \<Rightarrow> ('r \<Rightarrow> bool) \<Rightarrow> 'd backend \<Rightarrow> (error + unit) \<times> 'd backend" where
  "delete_where fails k T P b =
     (case send fails k (Delete (name T)) b of (down, b1) \<Rightarrow>
        if down then (Inl Unavailable, b1)
        else (Inr (), store T (filter (\<lambda>r. \<not> P r) (rows T (tables b1))) b1))"

section \<open>The hook's state and its arguments (src/hooks/useBudgetData.ts)\<close>

text \<open>The \<open>useState\<close> cells of \<open>useBudgetData\<close>.\<close>

record hook =
  budgetConfig :: "budget_config option"
  portfolios :: "investment_portfolio list"
  transactions :: "transaction list"
  transactionHistory :: "transaction_history list"
  loading :: bool

text \<open>
  An object of type \<open>TransactionInsert\<close> or \<open>TransactionUpdate\<close> passed by the caller is
  a list of the columns it supplies, each with its value; a later entry for the same
  column wins, as in an object spread.
\<close>

datatype transaction_column =
    Col_id ident
  | Col_user_id ident
  | Col_type transaction_type
  | Col_category transaction_category
  | Col_amount rat
  | Col_description "string option"
  | Col_notes "string option"
  | Col_date string
  | Col_time "string option"
  | Col_payment_type "payment_method option"
  | Col_spent_for "string option"
  | Col_tag "string option"
  | Col_portfolio_id "ident option"
  | Col_investment_type "string option"
  | Col_refund_for "ident option"
  | Col_original_transaction_id "ident option"
  | Col_status transaction_status
  | Col_is_deleted bool
  | Col_created_at timestamp
  | Col_updated_at timestamp
  | Col_deleted_at "timestamp option"

fun set_column :: "transaction_column \<Rightarrow> transaction \<Rightarrow> transaction" where
  "set_column (Col_id v) t = t\<lparr>tx_id := v\<rparr>"
| "set_column (Col_user_id v) t = t\<lparr>tx_user_id := v\<rparr>"
| "set_column (Col_type v) t = t\<lparr>tx_type := v\<rparr>"
| "set_column (Col_category v) t = t\<lparr>tx_category := v\<rparr>"
| "set_column (Col_amount v) t = t\<lparr>tx_amount := v\<rparr>"
| "set_column (Col_description v) t = t\<lparr>tx_description := v\<rparr>"
| "set_column (Col_notes v) t = t\<lparr>tx_notes := v\<rparr>"
| "set_column (Col_date v) t = t\<lparr>tx_date := v\<rparr>"
| "set_column (Col_time v) t = t\<lparr>tx_time := v\<rparr>"
| "set_column (Col_payment_type v) t = t\<lparr>tx_payment_type := v\<rparr>"
| "set_column (Col_spent_for v) t = t\<lparr>tx_spent_for := v\<rparr>"
| "set_column (Col_tag v) t = t\<lparr>tx_tag := v\<rparr>"
| "set_column (Col_portfolio_id v) t = t\<lparr>tx_portfolio_id := v\<rparr>"
| "set_column (Col_investment_type v) t = t\<lparr>tx_investment_type := v\<rparr>"
| "set_column (Col_refund_for v) t = t\<lparr>tx_refund_for := v\<rparr>"
| "set_column (Col_original_transaction_id v) t = t\<lparr>tx_original_transaction_id := v\<rparr>"
| "set_column (Col_status v) t = t\<lparr>tx_status := v\<rparr>"
| "set_column (Col_is_deleted v) t = t\<lparr>tx_is_deleted := v\<rparr>"
| "set_column (Col_created_at v) t = t\<lparr>tx_created_at := v\<rparr>"
| "set_column (Col_updated_at v) t = t\<lparr>tx_updated_at := v\<rparr>"
| "set_column (Col_deleted_at v) t = t\<lparr>tx_deleted_at := v\<rparr>"

definition set_columns :: "transaction_column list \<Rightarrow> transaction \<Rightarrow> transaction" where
  "set_columns cs t = fold set_column cs t"

datatype portfolio_column =
    Pcol_id ident
  | Pcol_user_id ident
  | Pcol_name string
  | Pcol_allocation_type allocation_kind
  | Pcol_allocation_value rat
  | Pcol_allocated_amount rat
  | Pcol_invested_amount rat
  | Pcol_allow_direct_investment bool
  | Pcol_is_active bool
  | Pcol_created_at timestamp
  | Pcol_updated_at timestamp

fun set_portfolio_column :: "portfolio_column \<Rightarrow> investment_portfolio \<Rightarrow> investment_portfolio" where
  "set_portfolio_column (Pcol_id v) p = p\<lparr>ip_id := v\<rparr>"
| "set_portfolio_column (Pcol_user_id v) p = p\<lparr>ip_user_id := v\<rparr>"
| "set_portfolio_column (Pcol_name v) p = p\<lparr>ip_name := v\<rparr>"
| "set_portfolio_column (Pcol_allocation_type v) p = p\<lparr>ip_allocation_type := v\<rparr>"
| "set_portfolio_column (Pcol_allocation_value v) p = p\<lparr>ip_allocation_value := v\<rparr>"
| "set_portfolio_column (Pcol_allocated_amount v) p = p\<lparr>ip_allocated_amount := v\<rparr>"
| "set_portfolio_column (Pcol_invested_amount v) p = p\<lparr>ip_invested_amount := v\<rparr>"
| "set_portfolio_column (Pcol_allow_direct_investment v) p = p\<lparr>ip_allow_direct_investment := v\<rparr>"
| "set_portfolio_column (Pcol_is_active v) p = p\<lparr>ip_is_active := v\<rparr>"
| "set_portfolio_column (Pcol_created_at v) p = p\<lparr>ip_created_at := v\<rparr>"
| "set_portfolio_column (Pcol_updated_at v) p = p\<lparr>ip_updated_at := v\<rparr>"

definition set_portfolio_columns ::
  "portfolio_column list \<Rightarrow> investment_portfolio \<Rightarrow> investment_portfolio" where
  "set_portfolio_columns cs p = fold set_portfolio_column cs p"

text \<open>The argument of \<open>saveBudgetConfig\<close>: a budget config without id, owner and timestamps.\<close>

record budget_values =
  monthly_salary :: rat
  budget_percentage :: rat
  allocation_need :: rat
  allocation_want :: rat
  allocation_savings :: rat
  allocation_investments :: rat

text \<open>\<open>x || ""\<close> on a string that may be null or undefined.\<close>

definition or_empty :: "string option \<Rightarrow> string" where
  "or_empty x = (case x of None \<Rightarrow> [] | Some s \<Rightarrow> s)"

text \<open>\<open>x || fallback\<close>: the empty string is falsy too.\<close>

definition or_else :: "string option \<Rightarrow> string \<Rightarrow> string" where
  "or_else x fallback = (case x of None \<Rightarrow> fallback | Some s \<Rightarrow> if s = [] then fallback else s)"

text \<open>\<open>s.split(sep)[0]\<close>\<close>

definition split_first :: "char \<Rightarrow> string \<Rightarrow> string" where
  "split_first sep s = takeWhile (\<lambda>c. c \<noteq> sep) s"

text \<open>
  Arithmetic on \<open>number\<close>. The difference of two doubles is the exact difference
  rounded to the nearest double, ties to the even significand (53 bits, exponents down
  to the subnormal spacing \<open>2 ^ -1074\<close>); a rounded magnitude of \<open>2 ^ 1024\<close> or more
  is an infinity, here \<open>None\<close>.
\<close>

fun bit_length :: "nat \<Rightarrow> nat" where
  "bit_length n = (if n = 0 then 0 else Suc (bit_length (n div 2)))"

declare bit_length.simps [simp del]

text \<open>\<open>floor_log2 m\<close> is the integer \<open>j\<close> with \<open>2 ^ j \<le> m < 2 ^ (j + 1)\<close>, for positive \<open>m\<close>.\<close>

definition floor_log2 :: "rat \<Rightarrow> int" where
  "floor_log2 m =
     (if 1 \<le> m then int (bit_length (nat \<lfloor>m\<rfloor>)) - 1
      else - int (bit_length (nat (\<lceil>1 / m\<rceil> - 1))))"

definition scale2 :: "rat \<Rightarrow> int \<Rightarrow> rat" where
  "scale2 x k = (if 0 \<le> k then x * 2 ^ nat k else x / 2 ^ nat (- k))"

definition round_half_even :: "rat \<Rightarrow> int" where
  "round_half_even q =
     (let f = \<lfloor>q\<rfloor>; d = q - of_int f
      in if d < 1 / 2 then f else if 1 / 2 < d then f + 1 else if even f then f else f + 1)"

text \<open>The spacing of the doubles around a positive \<open>m\<close> is \<open>2 ^ ulp_exponent m\<close>.\<close>

definition ulp_exponent :: "rat \<Rightarrow> int" where
  "ulp_exponent m = max (floor_log2 m - 52) (- 1074)"

definition nearest_multiple :: "rat \<Rightarrow> int \<Rightarrow> rat" where
  "nearest_multiple m k = scale2 (of_int (round_half_even (scale2 m (- k)))) k"

definition finite_or_none :: "rat \<Rightarrow> rat option" where
  "finite_or_none y = (if 2 ^ 1024 \<le> \<bar>y\<bar> then None else Some y)"

definition to_double :: "rat \<Rightarrow> rat option" where
  "to_double x =
     (if x = 0 then Some 0
      else if 0 < x then finite_or_none (nearest_multiple x (ulp_exponent x))
      else finite_or_none (- nearest_multiple (- x) (ulp_exponent (- x))))"

text \<open>\<open>a - b\<close> on two doubles.\<close>

definition double_minus :: "rat \<Rightarrow> rat \<Rightarrow> rat option" where
  "double_minus a b = to_double (a - b)"

definition not_authenticated :: error where
  "not_authenticated = Message ''User not authenticated''"

section \<open>Operations of \<open>useBudgetData\<close> (src/hooks/useBudgetData.ts)\<close>

text \<open>
  Each operation takes the environment, its arguments and the pair of the hook's state
  and the backend, and returns its result with the new pair. A result \<open>Inl err\<close> is the
  returned object with \<open>error\<close> set; \<open>Inr d\<close> is \<open>{ data: d, error: null }\<close>. An error
  thrown inside \<open>try\<close> reaches the \<open>catch\<close>, which returns it.
\<close>

type_synonym world = "hook \<times> database backend"

text \<open>
  \<open>saveBudgetConfig\<close> upserts the profile on its id, then upserts the budget config
  without naming a conflict column: the conflict target is the primary key, and the
  payload carries no id, so the key is the generated one.
\<close>

fun saveBudgetConfig ::
  "env \<Rightarrow> budget_values \<Rightarrow> world \<Rightarrow> (error + budget_config) \<times> world" where
  "saveBudgetConfig e config (h, b) =
     (case user e of
        None \<Rightarrow> (Inl not_authenticated, h, b)
      | Some u \<Rightarrow>
         (case upsert_row (outage e) 0 from_profiles (uid u)
                 (\<lambda>p. p\<lparr>pf_id := uid u, pf_email := or_else (email u) [],
                         pf_updated_at := now_iso e\<rparr>)
                 (new_profile e) b of
            (Inl profileError, b1) \<Rightarrow> (Inl profileError, h, b1)
          | (Inr _, b1) \<Rightarrow>
             (case upsert_row (outage e) 1 from_budget_configs (bc_id (new_budget_config e))
                     (\<lambda>c. c\<lparr>bc_user_id := uid u,
                             bc_monthly_salary := monthly_salary config,
                             bc_budget_percentage := budget_percentage config,
                             bc_allocation_need := allocation_need config,
                             bc_allocation_want := allocation_want config,
                             bc_allocation_savings := allocation_savings config,
                             bc_allocation_investments := allocation_investments config\<rparr>)
                     (new_budget_config e) b1 of
                (Inl err, b2) \<Rightarrow> (Inl err, h, b2)
              | (Inr d, b2) \<Rightarrow> (Inr d, h\<lparr>budgetConfig := Some d\<rparr>, b2))))"

fun saveInvestmentPortfolio ::
  "env \<Rightarrow> portfolio_column list \<Rightarrow> world \<Rightarrow> (error + investment_portfolio) \<times> world" where
  "saveInvestmentPortfolio e portfolio (h, b) =
     (case user e of
        None \<Rightarrow> (Inl not_authenticated, h, b)
      | Some u \<Rightarrow>
         (case insert_row (outage e) 0 from_investment_portfolios
                 (set_portfolio_columns (Pcol_user_id (uid u) # portfolio) (new_portfolio e)) b of
            (Inl err, b1) \<Rightarrow> (Inl err, h, b1)
          | (Inr d, b1) \<Rightarrow> (Inr d, h\<lparr>portfolios := portfolios h @ [d]\<rparr>, b1)))"

fun updateInvestmentPortfolio ::
  "env \<Rightarrow> ident \<Rightarrow> portfolio_column list \<Rightarrow> world \<Rightarrow> (error + investment_portfolio) \<times> world" where
  "updateInvestmentPortfolio e i updates (h, b) =
     (case user e of
        None \<Rightarrow> (Inl not_authenticated, h, b)
      | Some u \<Rightarrow>
         (case update_single (outage e) 0 from_investment_portfolios (set_portfolio_columns updates)
                 (\<lambda>p. ip_id p = i \<and> ip_user_id p = uid u) b of
            (Inl err, b1) \<Rightarrow> (Inl err, h, b1)
          | (Inr d, b1) \<Rightarrow>
              (Inr d, h\<lparr>portfolios := map (\<lambda>p. if ip_id p = i then d else p) (portfolios h)\<rparr>, b1)))"

fun deleteInvestmentPortfolio ::
  "env \<Rightarrow> ident \<Rightarrow> world \<Rightarrow> (error + unit) \<times> world" where
  "deleteInvestmentPortfolio e i (h, b) =
     (case user e of
        None \<Rightarrow> (Inl not_authenticated, h, b)
      | Some u \<Rightarrow>
         (case update_where (outage e) 0 from_investment_portfolios (\<lambda>p. p\<lparr>ip_is_active := False\<rparr>)
                 (\<lambda>p. ip_id p = i \<and> ip_user_id p = uid u) b of
            (Inl err, b1) \<Rightarrow> (Inl err, h, b1)
          | (Inr _, b1) \<Rightarrow>
              (Inr (), h\<lparr>portfolios := filter (\<lambda>p. ip_id p \<noteq> i) (portfolios h)\<rparr>, b1)))"

fun addTransaction ::
  "env \<Rightarrow> transaction_column list \<Rightarrow> world \<Rightarrow> (error + transaction) \<times> world" where
  "addTransaction e transaction (h, b) =
     (case user e of
        None \<Rightarrow> (Inl not_authenticated, h, b)
      | Some u \<Rightarrow>
         (case insert_row (outage e) 0 from_transactions
                 (set_columns (Col_user_id (uid u) # transaction) (new_transaction e)) b of
            (Inl err, b1) \<Rightarrow> (Inl err, h, b1)
          | (Inr d, b1) \<Rightarrow> (Inr d, h\<lparr>transactions := d # transactions h\<rparr>, b1)))"

fun updateTransaction ::
  "env \<Rightarrow> ident \<Rightarrow> transaction_column list \<Rightarrow> world \<Rightarrow> (error + transaction) \<times> world" where
  "updateTransaction e i updates (h, b) =
     (case user e of
        None \<Rightarrow> (Inl not_authenticated, h, b)
      | Some u \<Rightarrow>
         (case update_single (outage e) 0 from_transactions (set_columns updates)
                 (\<lambda>t. tx_id t = i \<and> tx_user_id t = uid u) b of
            (Inl err, b1) \<Rightarrow> (Inl err, h, b1)
          | (Inr d, b1) \<Rightarrow>
              (Inr d, h\<lparr>transactions := map (\<lambda>t. if tx_id t = i then d else t) (transactions h)\<rparr>, b1)))"

text \<open>The columns written by a soft delete.\<close>

definition soft_deleted :: "timestamp \<Rightarrow> transaction \<Rightarrow> transaction" where
  "soft_deleted now t =
     t\<lparr>tx_is_deleted := True, tx_deleted_at := Some now, tx_status := Cancelled\<rparr>"

fun deleteTransaction ::
  "env \<Rightarrow> ident \<Rightarrow> bool \<Rightarrow> world \<Rightarrow> (error + unit) \<times> world" where
  "deleteTransaction e i softDelete (h, b) =
     (case user e of
        None \<Rightarrow> (Inl not_authenticated, h, b)
      | Some u \<Rightarrow>
         if softDelete then
           (case update_where (outage e) 0 from_transactions (soft_deleted (now_iso e))
                   (\<lambda>t. tx_id t = i \<and> tx_user_id t = uid u) b of
              (Inl err, b1) \<Rightarrow> (Inl err, h, b1)
            | (Inr _, b1) \<Rightarrow>
                (Inr (), h\<lparr>transactions := filter (\<lambda>t. tx_id t \<noteq> i) (transactions h)\<rparr>, b1))
         else
           (case delete_where (outage e) 0 from_transactions
                   (\<lambda>t. tx_id t = i \<and> tx_user_id t = uid u) b of
              (Inl err, b1) \<Rightarrow> (Inl err, h, b1)
            | (Inr _, b1) \<Rightarrow>
                (Inr (), h\<lparr>transactions := filter (\<lambda>t. tx_id t \<noteq> i) (transactions h)\<rparr>, b1)))"

text \<open>
  \<open>refundTransaction\<close>: the status is chosen with \<open>>=\<close>; the result of the last update
  request is not looked at.
\<close>

definition refund_status :: "rat \<Rightarrow> rat \<Rightarrow> transaction_status" where
  "refund_status refundAmount originalAmount =
     (if refundAmount \<ge> originalAmount then Refunded else Partial_refund)"

definition refund_row :: "env \<Rightarrow> auth_user \<Rightarrow> transaction \<Rightarrow> ident \<Rightarrow> rat \<Rightarrow> string option \<Rightarrow> transaction" where
  "refund_row e u originalTransaction originalTransactionId refundAmount notes =
     (new_transaction e)\<lparr>
        tx_user_id := uid u,
        tx_type := Refund,
        tx_category := tx_category originalTransaction,
        tx_amount := refundAmount,
        tx_description :=
          Some (''Refund for: '' @ or_else (tx_description originalTransaction) ''Transaction''),
        tx_notes := notes,
        tx_date := split_first (CHR ''T'') (now_iso e),
        tx_time := Some (split_first (CHR '' '') (now_time e)),
        tx_payment_type := tx_payment_type originalTransaction,
        tx_refund_for := Some originalTransactionId,
        tx_status := Active\<rparr>"

fun refundTransaction ::
  "env \<Rightarrow> ident \<Rightarrow> rat \<Rightarrow> string option \<Rightarrow> world \<Rightarrow> (error + transaction) \<times> world" where
  "refundTransaction e originalTransactionId refundAmount notes (h, b) =
     (case user e of
        None \<Rightarrow> (Inl not_authenticated, h, b)
      | Some u \<Rightarrow>
         (case select_single (outage e) 0 from_transactions
                 (\<lambda>t. tx_id t = originalTransactionId \<and> tx_user_id t = uid u) b of
            (Inl fetchError, b1) \<Rightarrow> (Inl fetchError, h, b1)
          | (Inr originalTransaction, b1) \<Rightarrow>
             (case insert_row (outage e) 1 from_transactions
                     (refund_row e u originalTransaction originalTransactionId refundAmount notes)
                     b1 of
                (Inl refundError, b2) \<Rightarrow> (Inl refundError, h, b2)
              | (Inr refund, b2) \<Rightarrow>
                 (let newStatus = refund_status refundAmount (tx_amount originalTransaction) in
                  (case update_where (outage e) 2 from_transactions
                          (\<lambda>t. t\<lparr>tx_status := newStatus,
                                  tx_original_transaction_id := Some (tx_id refund)\<rparr>)
                          (\<lambda>t. tx_id t = originalTransactionId) b2 of
                     (_, b3) \<Rightarrow>
                       (Inr refund,
                        h\<lparr>transactions :=
                            refund # map (\<lambda>t. if tx_id t = originalTransactionId
                                               then t\<lparr>tx_status := newStatus\<rparr> else t)
                                         (transactions h)\<rparr>,
                        b3))))))"

text \<open>
  \<open>reduceInvestmentAmount\<close>: the new amount is the double difference; the result of the
  history insert is not looked at. An infinite new amount is serialised as \<open>null\<close>, which
  the column (not nullable in the \<open>Row\<close> type) refuses: the update request fails and
  nothing is written.
\<close>

definition rupee :: string where
  "rupee = [CHR 0xE2, CHR 0x82, CHR 0xB9]"

definition reduction_text :: "env \<Rightarrow> rat \<Rightarrow> string option \<Rightarrow> string" where
  "reduction_text e reductionAmount notes =
     ''Amount reduced by '' @ rupee @ number_text e reductionAmount @
     (case notes of None \<Rightarrow> [] | Some n \<Rightarrow> if n = [] then [] else '': '' @ n)"

definition reduced_notes :: "env \<Rightarrow> transaction \<Rightarrow> rat \<Rightarrow> string option \<Rightarrow> string" where
  "reduced_notes e originalTransaction reductionAmount notes =
     or_else (tx_notes originalTransaction) [] @ [CHR 0x0A] @
     reduction_text e reductionAmount notes"

definition reduction_too_large :: error where
  "reduction_too_large =
     Message ''Reduction amount cannot be greater than or equal to original amount''"

definition history_row :: "env \<Rightarrow> auth_user \<Rightarrow> ident \<Rightarrow> rat \<Rightarrow> rat \<Rightarrow> rat \<Rightarrow> string option \<Rightarrow> transaction_history" where
  "history_row e u transactionId originalAmount newAmount reductionAmount notes =
     (new_history e)\<lparr>
        th_transaction_id := transactionId,
        th_user_id := uid u,
        th_action := Amount_reduced,
        th_old_values := Some (JObject [(''amount'', JNumber originalAmount)]),
        th_new_values := Some (JObject [(''amount'', JNumber newAmount)]),
        th_changes_description := Some (reduction_text e reductionAmount notes),
        th_created_by := Some (uid u)\<rparr>"

fun reduceInvestmentAmount ::
  "env \<Rightarrow> ident \<Rightarrow> rat \<Rightarrow> string option \<Rightarrow> world \<Rightarrow> (error + transaction) \<times> world" where
  "reduceInvestmentAmount e transactionId reductionAmount notes (h, b) =
     (case user e of
        None \<Rightarrow> (Inl not_authenticated, h, b)
      | Some u \<Rightarrow>
         (case select_single (outage e) 0 from_transactions
                 (\<lambda>t. tx_id t = transactionId \<and> tx_user_id t = uid u) b of
            (Inl fetchError, b1) \<Rightarrow> (Inl fetchError, h, b1)
          | (Inr originalTransaction, b1) \<Rightarrow>
             if tx_amount originalTransaction \<le> reductionAmount
             then (Inl reduction_too_large, h, b1)
             else
               (case double_minus (tx_amount originalTransaction) reductionAmount of
                  None \<Rightarrow>
                    (case send (outage e) 1 (Update Transactions) b1 of
                       (down, b2) \<Rightarrow>
                         (Inl (if down then Unavailable else Not_null_violation), h, b2))
                | Some newAmount \<Rightarrow>
                   (case update_single (outage e) 1 from_transactions
                           (\<lambda>t. t\<lparr>tx_amount := newAmount,
                                   tx_notes := Some (reduced_notes e originalTransaction
                                                       reductionAmount notes)\<rparr>)
                           (\<lambda>t. tx_id t = transactionId \<and> tx_user_id t = uid u) b1 of
                      (Inl err, b2) \<Rightarrow> (Inl err, h, b2)
                    | (Inr d, b2) \<Rightarrow>
                       (case insert_row (outage e) 2 from_transaction_history
                               (history_row e u transactionId (tx_amount originalTransaction)
                                  newAmount reductionAmount notes) b2 of
                          (_, b3) \<Rightarrow>
                            (Inr d,
                             h\<lparr>transactions :=
                                 map (\<lambda>t. if tx_id t = transactionId then d else t)
                                   (transactions h)\<rparr>,
                             b3))))))"

text \<open>
  The transactions read of \<open>fetchBudgetData\<close> (the query built at lines 283 to 306 and
  the \<open>setTransactions\<close> that follows). It is the second request of the function, after
  the connectivity test on \<open>profiles\<close>. \<open>period\<close> holds the first and last day of the
  selected month when both \<open>selectedMonth\<close> and \<open>selectedYear\<close> are given. Rows with
  equal \<open>date\<close> and \<open>created_at\<close> keep their stored order.
\<close>

definition newer :: "transaction \<Rightarrow> transaction \<Rightarrow> bool" where
  "newer x y =
     (tx_date y < tx_date x \<or> (tx_date x = tx_date y \<and> tx_created_at y \<le> tx_created_at x))"

fun insert_newest :: "transaction \<Rightarrow> transaction list \<Rightarrow> transaction list" where
  "insert_newest t [] = [t]"
| "insert_newest t (x # xs) = (if newer t x then t # x # xs else x # insert_newest t xs)"

definition newest_first :: "transaction list \<Rightarrow> transaction list" where
  "newest_first ts = foldr insert_newest ts []"

definition transactionQuery ::
  "ident \<Rightarrow> (string \<times> string) option \<Rightarrow> (transaction \<Rightarrow> bool) \<times> (transaction list \<Rightarrow> transaction list)" where
  "transactionQuery userId period =
     (case period of
        Some (startDate, endDate) \<Rightarrow>
          (\<lambda>t. tx_user_id t = userId \<and> startDate \<le> tx_date t \<and> tx_date t \<le> endDate,
           newest_first)
      | None \<Rightarrow> (\<lambda>t. tx_user_id t = userId, \<lambda>ts. take 100 (newest_first ts)))"

fun fetchTransactions :: "env \<Rightarrow> (string \<times> string) option \<Rightarrow> world \<Rightarrow> world" where
  "fetchTransactions e period (h, b) =
     (case user e of
        None \<Rightarrow> (h, b)
      | Some u \<Rightarrow>
         (case transactionQuery (uid u) period of (matches, shape) \<Rightarrow>
           (case select_rows (outage e) 1 from_transactions matches shape b of
              (Inl transactionError, b1) \<Rightarrow> (h, b1)
            | (Inr transactionData, b1) \<Rightarrow> (h\<lparr>transactions := transactionData\<rparr>, b1))))"

section \<open>The second version of the hook\<close>

text \<open>
  The repository holds a second \<open>useBudgetData\<close>, found after the table types in
  src/lib/database.types.ts. It declares its own row types (with \<open>profile_name\<close>,
  \<open>budget_month\<close> and \<open>budget_year\<close>), takes the month, the year and the profile name
  as arguments of the hook, and throws its errors instead of returning them. Its names
  carry the suffix 2 here. Of its operations, the read \<open>fetchBudgetData\<close> and
  \<open>refundTransaction\<close> are modelled.
\<close>

datatype transaction_category2 = Need2 | Want2 | Savings2 | Investments2 | Unplanned2

record budget_config2 =
  bc2_id :: ident
  bc2_user_id :: ident
  bc2_profile_name :: string
  bc2_budget_month :: int
  bc2_budget_year :: int
  bc2_monthly_salary :: rat
  bc2_budget_percentage :: rat
  bc2_allocation_need :: rat
  bc2_allocation_want :: rat
  bc2_allocation_savings :: rat
  bc2_allocation_investments :: rat
  bc2_created_at :: timestamp
  bc2_updated_at :: timestamp

record investment_portfolio2 =
  ip2_id :: ident
  ip2_user_id :: ident
  ip2_profile_name :: string
  ip2_budget_month :: int
  ip2_budget_year :: int
  ip2_name :: string
  ip2_allocation_type :: allocation_kind
  ip2_allocation_value :: rat
  ip2_allocated_amount :: rat
  ip2_invested_amount :: rat
  ip2_allow_direct_investment :: bool
  ip2_is_active :: bool
  ip2_created_at :: timestamp
  ip2_updated_at :: timestamp

record transaction2 =
  tx2_id :: ident
  tx2_user_id :: ident
  tx2_profile_name :: string
  tx2_budget_month :: int
  tx2_budget_year :: int
  tx2_type :: transaction_type
  tx2_category :: transaction_category2
  tx2_amount :: rat
  tx2_description :: "string option"
  tx2_notes :: "string option"
  tx2_transaction_date :: string
  tx2_transaction_time :: "string option"
  tx2_payment_type :: "payment_method option"
  tx2_spent_for :: "string option"
  tx2_tag :: "string option"
  tx2_portfolio_id :: "ident option"
  tx2_investment_type :: "string option"
  tx2_refund_for :: "ident option"
  tx2_original_transaction_id :: "ident option"
  tx2_status :: transaction_status
  tx2_is_deleted :: bool
  tx2_created_at :: timestamp
  tx2_updated_at :: timestamp
  tx2_deleted_at :: "timestamp option"

record database2 =
  budget_configs_table2 :: "budget_config2 list"
  investment_portfolios_table2 :: "investment_portfolio2 list"
  transactions_table2 :: "transaction2 list"

definition from_budget_configs2 :: "(database2, budget_config2) table" where
  "from_budget_configs2 = \<lparr>name = Budget_configs, rows = budget_configs_table2,
     put = (\<lambda>rs d. d\<lparr>budget_configs_table2 := rs\<rparr>), key = bc2_id\<rparr>"

definition from_investment_portfolios2 :: "(database2, investment_portfolio2) table" where
  "from_investment_portfolios2 = \<lparr>name = Investment_portfolios, rows = investment_portfolios_table2,
     put = (\<lambda>rs d. d\<lparr>investment_portfolios_table2 := rs\<rparr>), key = ip2_id\<rparr>"

definition from_transactions2 :: "(database2, transaction2) table" where
  "from_transactions2 = \<lparr>name = Transactions, rows = transactions_table2,
     put = (\<lambda>rs d. d\<lparr>transactions_table2 := rs\<rparr>), key = tx2_id\<rparr>"

record hook2 =
  budgetConfig2 :: "budget_config2 option"
  portfolios2 :: "investment_portfolio2 list"
  transactions2 :: "transaction2 list"
  loading2 :: bool
  error2 :: "string option"

text \<open>
  The surroundings of the second version: the arguments \<open>month\<close>, \<open>year\<close> and
  \<open>profileName\<close> of the hook are part of them, and \<open>error_text\<close> is
  \<open>err instanceof Error ? err.message : 'An error occurred'\<close>.
\<close>

record env2 =
  user2 :: "auth_user option"
  outage2 :: "nat \<Rightarrow> bool"
  now_iso2 :: timestamp
  month :: int
  year :: int
  profileName :: string
  error_text :: "error \<Rightarrow> string"
  new_transaction2 :: transaction2

type_synonym world2 = "hook2 \<times> database2 backend"

text \<open>\<open>.maybeSingle()\<close>: no row is \<open>null\<close>, one row is the row, more is PGRST116.\<close>

definition maybe_single :: "'r list \<Rightarrow> error + 'r option" where
  "maybe_single rs = (case rs of [] \<Rightarrow> Inr None | [r] \<Rightarrow> Inr (Some r) | _ \<Rightarrow> Inl PGRST116)"

definition select_maybe_single ::
  "(nat \<Rightarrow> bool) \<Rightarrow> nat \<Rightarrow> ('d, 'r) table \<Rightarrow> ('r \<Rightarrow> bool) \<Rightarrow> 'd backend
     \<Rightarrow> (error + 'r option) \<times> 'd backend" where
  "select_maybe_single fails k T P b =
     (case send fails k (Select (name T)) b of (down, b1) \<Rightarrow>
        if down then (Inl Unavailable, b1)
        else (maybe_single (filter P (rows T (tables b1))), b1))"

text \<open>\<open>!user || !profileName || profileName === 'combined'\<close>\<close>

definition no_profile :: "env2 \<Rightarrow> bool" where
  "no_profile e = (user2 e = None \<or> profileName e = [] \<or> profileName e = ''combined'')"

fun insert_latest :: "transaction2 \<Rightarrow> transaction2 list \<Rightarrow> transaction2 list" where
  "insert_latest t [] = [t]"
| "insert_latest t (x # xs) =
     (if tx2_transaction_date x \<le> tx2_transaction_date t then t # x # xs
      else x # insert_latest t xs)"

definition latest_first :: "transaction2 list \<Rightarrow> transaction2 list" where
  "latest_first ts = foldr insert_latest ts []"

text \<open>
  \<open>fetchBudgetData\<close> of the second version; \<open>k\<close> is the number of requests the caller
  has sent before. A thrown error ends in \<open>setError\<close>, and \<open>finally\<close> clears \<open>loading\<close>.
\<close>

definition failed2 :: "env2 \<Rightarrow> error \<Rightarrow> hook2 \<Rightarrow> hook2" where
  "failed2 e err h = h\<lparr>error2 := Some (error_text e err), loading2 := False\<rparr>"

fun fetchBudgetData2 :: "env2 \<Rightarrow> nat \<Rightarrow> world2 \<Rightarrow> world2" where
  "fetchBudgetData2 e k (h, b) =
     (if no_profile e
      then (h\<lparr>budgetConfig2 := None, portfolios2 := [], transactions2 := [],
              loading2 := False\<rparr>, b)
      else
        (let userId = (case user2 e of None \<Rightarrow> [] | Some u \<Rightarrow> uid u);
             h0 = h\<lparr>loading2 := True, error2 := None\<rparr> in
         (case select_maybe_single (outage2 e) k from_budget_configs2
                 (\<lambda>c. bc2_user_id c = userId \<and> bc2_profile_name c = profileName e \<and>
                       bc2_budget_month c = month e \<and> bc2_budget_year c = year e) b of
            (budget, b1) \<Rightarrow>
              (case (case budget of
                       Inl budgetError \<Rightarrow>
                         if budgetError \<noteq> PGRST116 then Inl budgetError else Inr None
                     | Inr budgetData \<Rightarrow> Inr budgetData) of
                 Inl budgetError \<Rightarrow> (failed2 e budgetError h0, b1)
               | Inr budgetData \<Rightarrow>
                  (let h1 = h0\<lparr>budgetConfig2 := budgetData\<rparr> in
                   (case select_rows (outage2 e) (k + 1) from_investment_portfolios2
                           (\<lambda>p. ip2_user_id p = userId \<and> ip2_profile_name p = profileName e \<and>
                                 ip2_budget_month p = month e \<and> ip2_budget_year p = year e \<and>
                                 ip2_is_active p = True)
                           (\<lambda>ps. ps) b1 of
                      (Inl portfolioError, b2) \<Rightarrow> (failed2 e portfolioError h1, b2)
                    | (Inr portfolioData, b2) \<Rightarrow>
                       (let h2 = h1\<lparr>portfolios2 := portfolioData\<rparr> in
                        (case select_rows (outage2 e) (k + 2) from_transactions2
                                (\<lambda>t. tx2_user_id t = userId \<and>
                                      tx2_profile_name t = profileName e \<and>
                                      tx2_budget_month t = month e \<and>
                                      tx2_budget_year t = year e \<and>
                                      tx2_is_deleted t = False)
                                latest_first b2 of
                           (Inl transactionError, b3) \<Rightarrow> (failed2 e transactionError h2, b3)
                         | (Inr transactionData, b3) \<Rightarrow>
                             (h2\<lparr>transactions2 := transactionData, loading2 := False\<rparr>,
                              b3)))))))))"

text \<open>
  \<open>refundTransaction\<close> of the second version. The result \<open>Inr None\<close> is the bare
  \<open>return\<close> of the guard, \<open>Inl err\<close> a thrown error. The category is the constant
  \<open>'need'\<close>, and the status compares the refund with the amount of the original in the
  hook's own list by \<open>===\<close>; an original that is not in the list gives \<open>undefined\<close>.
\<close>

definition refund_row2 :: "env2 \<Rightarrow> ident \<Rightarrow> ident \<Rightarrow> rat \<Rightarrow> string \<Rightarrow> transaction2" where
  "refund_row2 e userId originalTransactionId refundAmount reason =
     (new_transaction2 e)\<lparr>
        tx2_user_id := userId,
        tx2_profile_name := profileName e,
        tx2_budget_month := month e,
        tx2_budget_year := year e,
        tx2_type := Refund,
        tx2_category := Need2,
        tx2_amount := refundAmount,
        tx2_description := Some (''Refund: '' @ reason),
        tx2_transaction_date := split_first (CHR ''T'') (now_iso2 e),
        tx2_refund_for := Some originalTransactionId,
        tx2_status := Active\<rparr>"

definition refund_status2 :: "rat \<Rightarrow> transaction2 list \<Rightarrow> ident \<Rightarrow> transaction_status" where
  "refund_status2 refundAmount cached originalTransactionId =
     (if Some refundAmount =
           map_option tx2_amount (find (\<lambda>t. tx2_id t = originalTransactionId) cached)
      then Refunded else Partial_refund)"

fun refundTransaction2 ::
  "env2 \<Rightarrow> ident \<Rightarrow> rat \<Rightarrow> string \<Rightarrow> world2 \<Rightarrow> (error + transaction2 option) \<times> world2" where
  "refundTransaction2 e originalTransactionId refundAmount reason (h, b) =
     (if no_profile e then (Inr None, h, b)
      else
        (let userId = (case user2 e of None \<Rightarrow> [] | Some u \<Rightarrow> uid u) in
         (case insert_row (outage2 e) 0 from_transactions2
                 (refund_row2 e userId originalTransactionId refundAmount reason) b of
            (Inl refundError, b1) \<Rightarrow> (Inl refundError, h, b1)
          | (Inr refund, b1) \<Rightarrow>
             (case update_where (outage2 e) 1 from_transactions2
                     (\<lambda>t. t\<lparr>tx2_status :=
                               refund_status2 refundAmount (transactions2 h) originalTransactionId,
                             tx2_original_transaction_id := Some (tx2_id refund)\<rparr>)
                     (\<lambda>t. tx2_id t = originalTransactionId \<and> tx2_user_id t = userId \<and>
                           tx2_profile_name t = profileName e) b1 of
                (Inl updateError, b2) \<Rightarrow> (Inl updateError, h, b2)
              | (Inr _, b2) \<Rightarrow>
                 (case fetchBudgetData2 e 2 (h, b2) of
                    (h', b3) \<Rightarrow> (Inr (Some refund), h', b3))))))"

section \<open>A small ledger to run the operations on\<close>

text \<open>
  One user, one purchase of 500 and the rows the database would build next. The
  environments differ in who is signed in and in which request fails.
\<close>

definition alice :: auth_user where
  "alice = \<lparr>uid = ''u1'', email = Some ''alice@example.org''\<rparr>"

definition purchase :: transaction where
  "purchase = \<lparr>tx_id = ''t1'', tx_user_id = ''u1'', tx_type = Expense, tx_category = Want,
     tx_amount = 500, tx_description = Some ''Headphones'', tx_notes = None,
     tx_date = ''2024-03-01'', tx_time = None, tx_payment_type = Some Card,
     tx_spent_for = None, tx_tag = None, tx_portfolio_id = None, tx_investment_type = None,
     tx_refund_for = None, tx_original_transaction_id = None, tx_status = Active,
     tx_is_deleted = False, tx_created_at = ''2024-03-01T09:00:00Z'',
     tx_updated_at = ''2024-03-01T09:00:00Z'', tx_deleted_at = None\<rparr>"

definition removed :: transaction where
  "removed = purchase\<lparr>tx_is_deleted := True, tx_deleted_at := Some ''2024-03-02T08:00:00Z'',
     tx_status := Cancelled\<rparr>"

definition next_transaction :: transaction where
  "next_transaction = \<lparr>tx_id = ''t2'', tx_user_id = [], tx_type = Expense, tx_category = Need,
     tx_amount = 0, tx_description = None, tx_notes = None, tx_date = [], tx_time = None,
     tx_payment_type = None, tx_spent_for = None, tx_tag = None, tx_portfolio_id = None,
     tx_investment_type = None, tx_refund_for = None, tx_original_transaction_id = None,
     tx_status = Active, tx_is_deleted = False, tx_created_at = ''2024-03-05T10:15:00Z'',
     tx_updated_at = ''2024-03-05T10:15:00Z'', tx_deleted_at = None\<rparr>"

definition next_history :: transaction_history where
  "next_history = \<lparr>th_id = ''h1'', th_transaction_id = [], th_user_id = [], th_action = Created,
     th_old_values = None, th_new_values = None, th_changes_description = None,
     th_created_at = ''2024-03-05T10:15:00Z'', th_created_by = None\<rparr>"

definition next_profile :: profile where
  "next_profile = \<lparr>pf_id = [], pf_email = [], pf_full_name = None, pf_avatar_url = None,
     pf_created_at = ''2024-03-05T10:15:00Z'', pf_updated_at = ''2024-03-05T10:15:00Z''\<rparr>"

definition next_budget_config :: budget_config where
  "next_budget_config = \<lparr>bc_id = ''c1'', bc_user_id = [], bc_monthly_salary = 0,
     bc_budget_percentage = 0, bc_allocation_need = 0, bc_allocation_want = 0,
     bc_allocation_savings = 0, bc_allocation_investments = 0,
     bc_created_at = ''2024-03-05T10:15:00Z'', bc_updated_at = ''2024-03-05T10:15:00Z''\<rparr>"

definition next_portfolio :: investment_portfolio where
  "next_portfolio = \<lparr>ip_id = ''p1'', ip_user_id = [], ip_name = [], ip_allocation_type = Percentage,
     ip_allocation_value = 0, ip_allocated_amount = 0, ip_invested_amount = 0,
     ip_allow_direct_investment = False, ip_is_active = True,
     ip_created_at = ''2024-03-05T10:15:00Z'', ip_updated_at = ''2024-03-05T10:15:00Z''\<rparr>"

definition never :: "nat \<Rightarrow> bool" where
  "never k = False"

definition at_request :: "nat \<Rightarrow> nat \<Rightarrow> bool" where
  "at_request n k = (k = n)"

text \<open>The rendering of the two reductions used below.\<close>

definition plain_number :: "rat \<Rightarrow> string" where
  "plain_number r = (if r = 100 then ''100'' else ''1'')"

definition calm :: env where
  "calm = \<lparr>user = Some alice, outage = never, now_iso = ''2024-03-05T10:15:00.000Z'',
     now_time = ''10:15:00 GMT+0000 (Coordinated Universal Time)'',
     number_text = plain_number, new_profile = next_profile,
     new_budget_config = next_budget_config, new_portfolio = next_portfolio,
     new_transaction = next_transaction, new_history = next_history\<rparr>"


definition flaky :: env where
  "flaky = calm\<lparr>outage := at_request 2\<rparr>"

definition signed_out :: env where
  "signed_out = calm\<lparr>user := None\<rparr>"

definition idle :: hook where
  "idle = \<lparr>budgetConfig = None, portfolios = [], transactions = [], transactionHistory = [],
     loading = False\<rparr>"

definition ledger :: "database backend" where
  "ledger = \<lparr>tables = \<lparr>profiles_table = [], budget_configs_table = [],
       investment_portfolios_table = [], transactions_table = [purchase],
       transaction_history_table = []\<rparr>,
     requests = []\<rparr>"

definition ledger_after_removal :: "database backend" where
  "ledger_after_removal = \<lparr>tables = \<lparr>profiles_table = [], budget_configs_table = [],
       investment_portfolios_table = [], transactions_table = [removed],
       transaction_history_table = []\<rparr>,
     requests = []\<rparr>"

definition stalled :: env where
  "stalled = calm\<lparr>outage := at_request 1\<rparr>"

definition reduced_purchase :: transaction where
  "reduced_purchase = purchase\<lparr>tx_amount := 400,
     tx_notes := Some (reduced_notes calm purchase 100 (Some ''overcharged''))\<rparr>"

definition ledger_after_reduction :: "database backend" where
  "ledger_after_reduction = \<lparr>tables = \<lparr>profiles_table = [], budget_configs_table = [],
       investment_portfolios_table = [], transactions_table = [reduced_purchase],
       transaction_history_table =
         [history_row calm alice ''t1'' 500 400 100 (Some ''overcharged'')]\<rparr>,
     requests = [Select Transactions, Update Transactions, Insert Transaction_history]\<rparr>"

text \<open>A purchase of \<open>2 ^ 54\<close>, where the doubles are four apart.\<close>

definition large_purchase :: transaction where
  "large_purchase = purchase\<lparr>tx_amount := 18014398509481984\<rparr>"

definition large_ledger :: "database backend" where
  "large_ledger = \<lparr>tables = \<lparr>profiles_table = [], budget_configs_table = [],
       investment_portfolios_table = [], transactions_table = [large_purchase],
       transaction_history_table = []\<rparr>,
     requests = []\<rparr>"

text \<open>The same purchase for the second version of the hook.\<close>

definition purchase2 :: transaction2 where
  "purchase2 = \<lparr>tx2_id = ''t1'', tx2_user_id = ''u1'', tx2_profile_name = ''home'',
     tx2_budget_month = 3, tx2_budget_year = 2024, tx2_type = Expense, tx2_category = Want2,
     tx2_amount = 500, tx2_description = Some ''Headphones'', tx2_notes = None,
     tx2_transaction_date = ''2024-03-01'', tx2_transaction_time = None,
     tx2_payment_type = Some Card, tx2_spent_for = None, tx2_tag = None,
     tx2_portfolio_id = None, tx2_investment_type = None, tx2_refund_for = None,
     tx2_original_transaction_id = None, tx2_status = Active, tx2_is_deleted = False,
     tx2_created_at = ''2024-03-01T09:00:00Z'', tx2_updated_at = ''2024-03-01T09:00:00Z'',
     tx2_deleted_at = None\<rparr>"

definition removed2 :: transaction2 where
  "removed2 = purchase2\<lparr>tx2_is_deleted := True, tx2_deleted_at := Some ''2024-03-02T08:00:00Z''\<rparr>"

definition next_transaction2 :: transaction2 where
  "next_transaction2 = \<lparr>tx2_id = ''t2'', tx2_user_id = [], tx2_profile_name = [],
     tx2_budget_month = 0, tx2_budget_year = 0, tx2_type = Expense, tx2_category = Need2,
     tx2_amount = 0, tx2_description = None, tx2_notes = None, tx2_transaction_date = [],
     tx2_transaction_time = None, tx2_payment_type = None, tx2_spent_for = None,
     tx2_tag = None, tx2_portfolio_id = None, tx2_investment_type = None,
     tx2_refund_for = None, tx2_original_transaction_id = None, tx2_status = Active,
     tx2_is_deleted = False, tx2_created_at = ''2024-03-05T10:15:00Z'',
     tx2_updated_at = ''2024-03-05T10:15:00Z'', tx2_deleted_at = None\<rparr>"

definition plain_error :: "error \<Rightarrow> string" where
  "plain_error err = ''An error occurred''"

definition calm2 :: env2 where
  "calm2 = \<lparr>user2 = Some alice, outage2 = never, now_iso2 = ''2024-03-05T10:15:00.000Z'',
     month = 3, year = 2024, profileName = ''home'', error_text = plain_error,
     new_transaction2 = next_transaction2\<rparr>"

definition flaky2 :: env2 where
  "flaky2 = calm2\<lparr>outage2 := at_request 1\<rparr>"

definition showing2 :: hook2 where
  "showing2 = \<lparr>budgetConfig2 = None, portfolios2 = [], transactions2 = [purchase2],
     loading2 = False, error2 = None\<rparr>"

definition ledger2 :: "database2 backend" where
  "ledger2 = \<lparr>tables = \<lparr>budget_configs_table2 = [], investment_portfolios_table2 = [],
       transactions_table2 = [purchase2]\<rparr>,
     requests = []\<rparr>"

definition ledger2_after_removal :: "database2 backend" where
  "ledger2_after_removal = \<lparr>tables = \<lparr>budget_configs_table2 = [],
       investment_portfolios_table2 = [], transactions_table2 = [removed2]\<rparr>,
     requests = []\<rparr>"

text \<open>Two rows that agree on every column other than \<open>amount\<close> and \<open>notes\<close>.\<close>

definition keeps_other_columns :: "transaction \<Rightarrow> transaction \<Rightarrow> bool" where
  "keeps_other_columns t t' =
     (tx_id t' = tx_id t \<and> tx_user_id t' = tx_user_id t \<and> tx_type t' = tx_type t
      \<and> tx_category t' = tx_category t \<and> tx_description t' = tx_description t
      \<and> tx_date t' = tx_date t \<and> tx_time t' = tx_time t
      \<and> tx_payment_type t' = tx_payment_type t \<and> tx_spent_for t' = tx_spent_for t
      \<and> tx_tag t' = tx_tag t \<and> tx_portfolio_id t' = tx_portfolio_id t
      \<and> tx_investment_type t' = tx_investment_type t \<and> tx_refund_for t' = tx_refund_for t
      \<and> tx_original_transaction_id t' = tx_original_transaction_id t
      \<and> tx_status t' = tx_status t \<and> tx_is_deleted t' = tx_is_deleted t
      \<and> tx_created_at t' = tx_created_at t \<and> tx_updated_at t' = tx_updated_at t
      \<and> tx_deleted_at t' = tx_deleted_at t)"

text \<open>The sum of the refunds recorded against a transaction.\<close>

definition refunded_total :: "ident \<Rightarrow> transaction list \<Rightarrow> rat" where
  "refunded_total i ts = sum_list (map tx_amount (filter (\<lambda>t. tx_refund_for t = Some i) ts))"

section \<open>Evaluating the double subtraction\<close>

lemma floor_rat_numeral:
  "\<lfloor>(numeral a :: rat) / numeral b\<rfloor> = numeral a div numeral b"
  "\<lfloor>(1 :: rat) / numeral b\<rfloor> = 1 div numeral b"
  using floor_divide_of_int_eq [of "numeral a" "numeral b", where ?'a = rat]
    floor_divide_of_int_eq [of 1 "numeral b", where ?'a = rat]
  by simp_all

lemma ceiling_rat_numeral:
  "\<lceil>(numeral a :: rat) / numeral b\<rceil> = - (- numeral a div numeral b)"
  "\<lceil>(1 :: rat) / numeral b\<rceil> = - (- 1 div numeral b)"
  using ceiling_divide_eq_div [of "numeral a" "numeral b", where ?'a = rat]
    ceiling_divide_eq_div [of 1 "numeral b", where ?'a = rat]
  by simp_all

lemmas double_eval = double_minus_def to_double_def finite_or_none_def nearest_multiple_def
  ulp_exponent_def round_half_even_def scale2_def floor_log2_def bit_length.simps Let_def
  floor_rat_numeral ceiling_rat_numeral

lemma double_minus_500_100: "double_minus 500 100 = Some 400"
  by (simp add: double_eval)

lemma double_minus_large: "double_minus 18014398509481984 1 = Some 18014398509481984"
  by (simp add: double_eval)

text \<open>One minus the double nearest to a tenth is the double nearest to nine tenths.\<close>

lemma double_minus_tenth:
  "double_minus 1 (3602879701896397 / 36028797018963968)
     = Some (8106479329266893 / 9007199254740992)"
  by (simp add: double_eval)

section \<open>Lemmas on keyed tables\<close>

lemma filter_key_unique:
  "distinct (map f xs) \<Longrightarrow> x \<in> set xs \<Longrightarrow> P x \<Longrightarrow> filter (\<lambda>y. f y = f x \<and> P y) xs = [x]"
proof (induction xs)
  case Nil
  then show ?case by simp
next
  case (Cons a xs)
  show ?case
  proof (cases "a = x")
    case True
    with Cons.prems have "f x \<notin> f ` set xs" by simp
    then have "\<forall>y\<in>set xs. f y \<noteq> f x" by (metis imageI)
    then have "filter (\<lambda>y. f y = f x \<and> P y) xs = []"
      by (simp add: filter_empty_conv)
    with True Cons.prems show ?thesis by simp
  next
    case False
    with Cons.prems have "x \<in> set xs" by simp
    with Cons.prems have "f a \<noteq> f x" by (auto simp: image_iff)
    with Cons \<open>x \<in> set xs\<close> show ?thesis by simp
  qed
qed

lemma filter_key_only:
  assumes "distinct (map f xs)" and "x \<in> set xs"
  shows "filter (\<lambda>y. f y = f x) xs = [x]"
  using filter_key_unique [OF assms, of "\<lambda>y. True"] by simp

lemma filter_key_updated:
  assumes "distinct (map f xs)" and "x \<in> set xs" and "\<And>y. f (g y) = f y"
  shows "filter (\<lambda>y. f y = f x) (map (\<lambda>y. if f y = f x then g y else y) xs) = [g x]"
proof -
  have "filter (\<lambda>y. f y = f x) (map (\<lambda>y. if f y = f x then g y else y) xs)
      = map (\<lambda>y. if f y = f x then g y else y) (filter (\<lambda>y. f y = f x) xs)"
    by (induction xs) (simp_all add: assms(3))
  also have "\<dots> = [g x]"
    by (simp add: filter_key_only [OF assms(1,2)])
  finally show ?thesis .
qed

section \<open>What a served call does\<close>

lemma refund_row_id: "tx_id (refund_row e u T i r n) = tx_id (new_transaction e)"
  by (simp add: refund_row_def)

lemma refundTransaction_served:
  assumes auth: "user e = Some u"
    and stored: "T \<in> set (transactions_table (tables b))"
    and owner: "tx_user_id T = uid u"
    and pk: "distinct (map tx_id (transactions_table (tables b)))"
    and fresh: "tx_id (new_transaction e) \<notin> tx_id ` set (transactions_table (tables b))"
    and served: "\<not> outage e 0" "\<not> outage e 1" "\<not> outage e 2"
  shows "refundTransaction e (tx_id T) r reason (h, b) =
    (Inr (refund_row e u T (tx_id T) r reason),
     h\<lparr>transactions := refund_row e u T (tx_id T) r reason #
         map (\<lambda>t. if tx_id t = tx_id T then t\<lparr>tx_status := refund_status r (tx_amount T)\<rparr> else t)
           (transactions h)\<rparr>,
     b\<lparr>tables := (tables b)\<lparr>transactions_table :=
          map (\<lambda>t. if tx_id t = tx_id T
                    then t\<lparr>tx_status := refund_status r (tx_amount T),
                           tx_original_transaction_id := Some (tx_id (new_transaction e))\<rparr>
                    else t) (transactions_table (tables b))
          @ [refund_row e u T (tx_id T) r reason]\<rparr>,
        requests := requests b @ [Select Transactions, Insert Transactions, Update Transactions]\<rparr>)"
proof -
  have one: "filter (\<lambda>t. tx_id t = tx_id T \<and> tx_user_id t = uid u) (transactions_table (tables b)) = [T]"
    using filter_key_unique [of tx_id "transactions_table (tables b)" T "\<lambda>t. tx_user_id t = uid u"]
      pk stored owner by simp
  have neq: "tx_id (new_transaction e) \<noteq> tx_id T"
    using fresh stored by auto
  show ?thesis
    using auth served fresh neq
    by (simp add: select_single_def insert_row_def update_where_def send_def store_def
        single_def from_transactions_def one Let_def refund_row_id)
qed

lemma reduceInvestmentAmount_served:
  assumes auth: "user e = Some u"
    and stored: "T \<in> set (transactions_table (tables b))"
    and owner: "tx_user_id T = uid u"
    and pk: "distinct (map tx_id (transactions_table (tables b)))"
    and fresh: "th_id (new_history e) \<notin> th_id ` set (transaction_history_table (tables b))"
    and served: "\<not> outage e 0" "\<not> outage e 1" "\<not> outage e 2"
    and less: "r < tx_amount T"
    and finite: "double_minus (tx_amount T) r = Some a"
  shows "reduceInvestmentAmount e (tx_id T) r notes (h, b) =
    (Inr (T\<lparr>tx_amount := a, tx_notes := Some (reduced_notes e T r notes)\<rparr>),
     h\<lparr>transactions :=
         map (\<lambda>t. if tx_id t = tx_id T
                   then T\<lparr>tx_amount := a, tx_notes := Some (reduced_notes e T r notes)\<rparr>
                   else t) (transactions h)\<rparr>,
     b\<lparr>tables := (tables b)\<lparr>
          transactions_table :=
            map (\<lambda>t. if tx_id t = tx_id T \<and> tx_user_id t = uid u
                      then t\<lparr>tx_amount := a, tx_notes := Some (reduced_notes e T r notes)\<rparr>
                      else t) (transactions_table (tables b)),
          transaction_history_table :=
            transaction_history_table (tables b) @
            [history_row e u (tx_id T) (tx_amount T) a r notes]\<rparr>,
        requests := requests b @ [Select Transactions, Update Transactions, Insert Transaction_history]\<rparr>)"
proof -
  have one: "filter (\<lambda>t. tx_id t = tx_id T \<and> tx_user_id t = uid u) (transactions_table (tables b)) = [T]"
    using filter_key_unique [of tx_id "transactions_table (tables b)" T "\<lambda>t. tx_user_id t = uid u"]
      pk stored owner by simp
  have hid: "th_id (history_row e u (tx_id T) (tx_amount T) a r notes) = th_id (new_history e)"
    by (simp add: history_row_def)
  show ?thesis
    using auth served fresh less finite
    by (simp add: select_single_def insert_row_def update_single_def send_def store_def
        single_def from_transactions_def from_transaction_history_def one hid)
qed

section \<open>Refunds\<close>

text \<open>
  C2 fails on the code in two places. In \<open>useBudgetData.ts\<close> the result of the status
  update is not looked at: when that request fails, the call still returns the new
  refund as a success, and the stored original has no \<open>original_transaction_id\<close> and is
  still active. The second version checks that result, but writes the category need
  and no payment type for the refund of a card purchase of category want.
\<close>

theorem refundTransaction_succeeds_without_link:
  "fst (refundTransaction flaky ''t1'' 500 None (idle, ledger))
     = Inr (refund_row flaky alice purchase ''t1'' 500 None)
   \<and> map tx_id (transactions_table (tables (snd (snd
        (refundTransaction flaky ''t1'' 500 None (idle, ledger)))))) = [''t1'', ''t2'']
   \<and> map tx_original_transaction_id (transactions_table (tables (snd (snd
        (refundTransaction flaky ''t1'' 500 None (idle, ledger)))))) = [None, None]
   \<and> map tx_status (transactions_table (tables (snd (snd
        (refundTransaction flaky ''t1'' 500 None (idle, ledger)))))) = [Active, Active]
   \<and> fst (refundTransaction2 calm2 ''t1'' 500 ''broken'' (showing2, ledger2))
     = Inr (Some (refund_row2 calm2 ''u1'' ''t1'' 500 ''broken''))
   \<and> tx2_category (refund_row2 calm2 ''u1'' ''t1'' 500 ''broken'') = Need2
   \<and> tx2_category purchase2 = Want2
   \<and> tx2_payment_type (refund_row2 calm2 ''u1'' ''t1'' 500 ''broken'') = None
   \<and> tx2_payment_type purchase2 = Some Card"
  by (simp add: flaky_def calm_def ledger_def purchase_def next_transaction_def alice_def
      at_request_def refund_row_def refund_status_def
      select_single_def insert_row_def update_where_def send_def store_def single_def
      from_transactions_def
      calm2_def ledger2_def showing2_def purchase2_def next_transaction2_def never_def
      no_profile_def refund_row2_def refund_status2_def select_maybe_single_def
      select_rows_def maybe_single_def from_transactions2_def from_budget_configs2_def
      from_investment_portfolios2_def Let_def)

text \<open>
  When all three requests are served, \<open>refundTransaction\<close> of \<open>useBudgetData.ts\<close> does
  what the claim describes: for a stored transaction \<open>T\<close> of the signed-in user it returns
  the new refund row \<open>R\<close>, of type refund, with the refund amount, \<open>refund_for\<close> the id
  of \<open>T\<close>, status active and the category and payment type of \<open>T\<close>; the table grows by
  exactly this one row, and the stored row of \<open>T\<close> points at it.
\<close>

lemma refundTransaction_creates_linked_refund:
  assumes auth: "user e = Some u"
    and stored: "T \<in> set (transactions_table (tables b))"
    and owner: "tx_user_id T = uid u"
    and pk: "distinct (map tx_id (transactions_table (tables b)))"
    and fresh: "tx_id (new_transaction e) \<notin> tx_id ` set (transactions_table (tables b))"
    and served: "\<not> outage e 0" "\<not> outage e 1" "\<not> outage e 2"
  shows "\<exists>R h' b' T'.
      refundTransaction e (tx_id T) r reason (h, b) = (Inr R, h', b')
    \<and> tx_type R = Refund \<and> tx_amount R = r \<and> tx_refund_for R = Some (tx_id T)
    \<and> tx_status R = Active
    \<and> tx_category R = tx_category T \<and> tx_payment_type R = tx_payment_type T
    \<and> tx_id R \<noteq> tx_id T
    \<and> length (transactions_table (tables b')) = Suc (length (transactions_table (tables b)))
    \<and> filter (\<lambda>t. tx_id t \<notin> tx_id ` set (transactions_table (tables b)))
         (transactions_table (tables b')) = [R]
    \<and> filter (\<lambda>t. tx_id t = tx_id T) (transactions_table (tables b')) = [T']
    \<and> tx_original_transaction_id T' = Some (tx_id R)"
proof -
  let ?R = "refund_row e u T (tx_id T) r reason"
  let ?g = "\<lambda>t. t\<lparr>tx_status := refund_status r (tx_amount T),
                   tx_original_transaction_id := Some (tx_id (new_transaction e))\<rparr>"
  let ?old = "transactions_table (tables b)"
  let ?new = "map (\<lambda>t. if tx_id t = tx_id T then ?g t else t) ?old @ [?R]"
  let ?h' = "h\<lparr>transactions := ?R #
         map (\<lambda>t. if tx_id t = tx_id T then t\<lparr>tx_status := refund_status r (tx_amount T)\<rparr> else t)
           (transactions h)\<rparr>"
  let ?b' = "b\<lparr>tables := (tables b)\<lparr>transactions_table := ?new\<rparr>,
        requests := requests b @ [Select Transactions, Insert Transactions, Update Transactions]\<rparr>"
  have run: "refundTransaction e (tx_id T) r reason (h, b) = (Inr ?R, ?h', ?b')"
    using refundTransaction_served [OF assms] .
  have tbl: "transactions_table (tables ?b') = ?new" by simp
  have neq: "tx_id ?R \<noteq> tx_id T"
    using fresh stored by (auto simp: refund_row_id)
  have ids: "map tx_id (map (\<lambda>t. if tx_id t = tx_id T then ?g t else t) ?old) = map tx_id ?old"
    by (induction ?old) simp_all
  have old_in: "filter (\<lambda>t. tx_id t \<notin> tx_id ` set ?old)
                  (map (\<lambda>t. if tx_id t = tx_id T then ?g t else t) ?old) = []"
    using stored by (auto simp: filter_empty_conv)
  have new_one: "filter (\<lambda>t. tx_id t \<notin> tx_id ` set ?old) ?new = [?R]"
    using fresh old_in by (simp add: refund_row_id)
  have upd: "filter (\<lambda>t. tx_id t = tx_id T) (map (\<lambda>t. if tx_id t = tx_id T then ?g t else t) ?old) = [?g T]"
    by (rule filter_key_updated [OF pk stored]) simp
  have target: "filter (\<lambda>t. tx_id t = tx_id T) ?new = [?g T]"
    using upd neq by simp
  have fields: "tx_type ?R = Refund \<and> tx_amount ?R = r \<and> tx_refund_for ?R = Some (tx_id T)
      \<and> tx_status ?R = Active \<and> tx_category ?R = tx_category T
      \<and> tx_payment_type ?R = tx_payment_type T"
    by (simp add: refund_row_def)
  have len: "length (transactions_table (tables ?b')) = Suc (length ?old)" by simp
  have link: "tx_original_transaction_id (?g T) = Some (tx_id ?R)"
    by (simp add: refund_row_id)
  have new_one': "filter (\<lambda>t. tx_id t \<notin> tx_id ` set ?old) (transactions_table (tables ?b')) = [?R]"
    using new_one by simp
  have target': "filter (\<lambda>t. tx_id t = tx_id T) (transactions_table (tables ?b')) = [?g T]"
    using target by simp
  show ?thesis
    apply (rule exI [of _ ?R], rule exI [of _ ?h'], rule exI [of _ ?b'], rule exI [of _ "?g T"])
    using run fields neq len new_one' target' link by blast
qed

lemma refundTransaction_creates_linked_refund_example:
  "user calm = Some alice
   \<and> purchase \<in> set (transactions_table (tables ledger))
   \<and> tx_user_id purchase = uid alice
   \<and> distinct (map tx_id (transactions_table (tables ledger)))
   \<and> tx_id (new_transaction calm) \<notin> tx_id ` set (transactions_table (tables ledger))
   \<and> \<not> outage calm 0 \<and> \<not> outage calm 1 \<and> \<not> outage calm 2
   \<and> (\<exists>R h' b' T'.
      refundTransaction calm (tx_id purchase) 200 (Some ''partial'') (idle, ledger) = (Inr R, h', b')
    \<and> tx_type R = Refund \<and> tx_amount R = 200 \<and> tx_refund_for R = Some (tx_id purchase)
    \<and> tx_status R = Active
    \<and> tx_category R = tx_category purchase \<and> tx_payment_type R = tx_payment_type purchase
    \<and> tx_id R \<noteq> tx_id purchase
    \<and> length (transactions_table (tables b')) = Suc (length (transactions_table (tables ledger)))
    \<and> filter (\<lambda>t. tx_id t \<notin> tx_id ` set (transactions_table (tables ledger)))
         (transactions_table (tables b')) = [R]
    \<and> filter (\<lambda>t. tx_id t = tx_id purchase) (transactions_table (tables b')) = [T']
    \<and> tx_original_transaction_id T' = Some (tx_id R))"
proof -
  have auth: "user calm = Some alice" by (simp add: calm_def)
  have stored: "purchase \<in> set (transactions_table (tables ledger))" by (simp add: ledger_def)
  have owner: "tx_user_id purchase = uid alice" by (simp add: purchase_def alice_def)
  have pk: "distinct (map tx_id (transactions_table (tables ledger)))" by (simp add: ledger_def)
  have fresh: "tx_id (new_transaction calm) \<notin> tx_id ` set (transactions_table (tables ledger))"
    by (simp add: calm_def ledger_def next_transaction_def purchase_def)
  have s0: "\<not> outage calm 0" and s1: "\<not> outage calm 1" and s2: "\<not> outage calm 2"
    by (simp_all add: calm_def never_def)
  show ?thesis
    using auth stored owner pk fresh s0 s1 s2
      refundTransaction_creates_linked_refund [OF auth stored owner pk fresh s0 s1 s2,
        of 200 "Some ''partial''" idle]
    by blast
qed

text \<open>
  C1, as stated, fails: a refund of 600 against the purchase of 500 leaves the purchase
  with status refunded although the refund does not equal the amount.
\<close>

theorem refundTransaction_status_counterexample:
  "map tx_id (transactions_table (tables (snd (snd
      (refundTransaction calm ''t1'' 600 None (idle, ledger)))))) = [''t1'', ''t2'']
   \<and> map tx_status (transactions_table (tables (snd (snd
      (refundTransaction calm ''t1'' 600 None (idle, ledger)))))) = [Refunded, Active]
   \<and> tx_amount purchase = 500 \<and> (600::rat) \<noteq> 500"
  by (simp add: calm_def ledger_def purchase_def next_transaction_def alice_def never_def
      select_single_def insert_row_def update_where_def send_def store_def single_def
      from_transactions_def refund_row_def refund_status_def)

text \<open>
  C1, amended: for a stored transaction \<open>T\<close> of the signed-in user, with the three
  requests served, \<open>refundTransaction\<close> leaves the stored row of \<open>T\<close> with status
  refunded exactly when the refund is at least the amount of \<open>T\<close>, and with status
  partial refund exactly when the refund is strictly less.
\<close>

theorem refundTransaction_status:
  assumes auth: "user e = Some u"
    and stored: "T \<in> set (transactions_table (tables b))"
    and owner: "tx_user_id T = uid u"
    and pk: "distinct (map tx_id (transactions_table (tables b)))"
    and fresh: "tx_id (new_transaction e) \<notin> tx_id ` set (transactions_table (tables b))"
    and served: "\<not> outage e 0" "\<not> outage e 1" "\<not> outage e 2"
  shows "\<exists>R h' b' T'.
      refundTransaction e (tx_id T) r reason (h, b) = (Inr R, h', b')
    \<and> filter (\<lambda>t. tx_id t = tx_id T) (transactions_table (tables b')) = [T']
    \<and> (tx_status T' = Refunded \<longleftrightarrow> tx_amount T \<le> r)
    \<and> (tx_status T' = Partial_refund \<longleftrightarrow> r < tx_amount T)"
proof -
  let ?R = "refund_row e u T (tx_id T) r reason"
  let ?g = "\<lambda>t. t\<lparr>tx_status := refund_status r (tx_amount T),
                   tx_original_transaction_id := Some (tx_id (new_transaction e))\<rparr>"
  let ?old = "transactions_table (tables b)"
  let ?new = "map (\<lambda>t. if tx_id t = tx_id T then ?g t else t) ?old @ [?R]"
  let ?h' = "h\<lparr>transactions := ?R #
         map (\<lambda>t. if tx_id t = tx_id T then t\<lparr>tx_status := refund_status r (tx_amount T)\<rparr> else t)
           (transactions h)\<rparr>"
  let ?b' = "b\<lparr>tables := (tables b)\<lparr>transactions_table := ?new\<rparr>,
        requests := requests b @ [Select Transactions, Insert Transactions, Update Transactions]\<rparr>"
  have run: "refundTransaction e (tx_id T) r reason (h, b) = (Inr ?R, ?h', ?b')"
    using refundTransaction_served [OF assms] .
  have neq: "tx_id ?R \<noteq> tx_id T"
    using fresh stored by (auto simp: refund_row_id)
  have upd: "filter (\<lambda>t. tx_id t = tx_id T) (map (\<lambda>t. if tx_id t = tx_id T then ?g t else t) ?old) = [?g T]"
    by (rule filter_key_updated [OF pk stored]) simp
  have target: "filter (\<lambda>t. tx_id t = tx_id T) (transactions_table (tables ?b')) = [?g T]"
    using upd neq by simp
  have full: "tx_status (?g T) = Refunded \<longleftrightarrow> tx_amount T \<le> r"
    by (simp add: refund_status_def)
  have part: "tx_status (?g T) = Partial_refund \<longleftrightarrow> r < tx_amount T"
    by (auto simp: refund_status_def)
  show ?thesis
    apply (rule exI [of _ ?R], rule exI [of _ ?h'], rule exI [of _ ?b'], rule exI [of _ "?g T"])
    using run target full part by blast
qed

theorem refundTransaction_status_witness:
  "user calm = Some alice
   \<and> purchase \<in> set (transactions_table (tables ledger))
   \<and> tx_user_id purchase = uid alice
   \<and> distinct (map tx_id (transactions_table (tables ledger)))
   \<and> tx_id (new_transaction calm) \<notin> tx_id ` set (transactions_table (tables ledger))
   \<and> \<not> outage calm 0 \<and> \<not> outage calm 1 \<and> \<not> outage calm 2
   \<and> (\<exists>R h' b' T'.
      refundTransaction calm (tx_id purchase) 500 None (idle, ledger) = (Inr R, h', b')
    \<and> filter (\<lambda>t. tx_id t = tx_id purchase) (transactions_table (tables b')) = [T']
    \<and> (tx_status T' = Refunded \<longleftrightarrow> tx_amount purchase \<le> 500)
    \<and> (tx_status T' = Partial_refund \<longleftrightarrow> 500 < tx_amount purchase))"
proof -
  have auth: "user calm = Some alice" by (simp add: calm_def)
  have stored: "purchase \<in> set (transactions_table (tables ledger))" by (simp add: ledger_def)
  have owner: "tx_user_id purchase = uid alice" by (simp add: purchase_def alice_def)
  have pk: "distinct (map tx_id (transactions_table (tables ledger)))" by (simp add: ledger_def)
  have fresh: "tx_id (new_transaction calm) \<notin> tx_id ` set (transactions_table (tables ledger))"
    by (simp add: calm_def ledger_def next_transaction_def purchase_def)
  have s0: "\<not> outage calm 0" and s1: "\<not> outage calm 1" and s2: "\<not> outage calm 2"
    by (simp_all add: calm_def never_def)
  show ?thesis
    using auth stored owner pk fresh s0 s1 s2
      refundTransaction_status [OF auth stored owner pk fresh s0 s1 s2, of 500 None idle]
    by blast
qed

text \<open>
  The second version of the hook decides the status by equality with the amount in its
  own list, so a refund above the amount leaves the original partially refunded there;
  its refund row has the category need and no payment type, whatever the original has.
\<close>

lemma refundTransaction2_status_above_amount:
  "map tx2_status (transactions_table2 (tables (snd (snd
      (refundTransaction2 calm2 ''t1'' 600 ''broken'' (showing2, ledger2))))))
     = [Partial_refund, Active]"
  by (simp add: calm2_def ledger2_def showing2_def purchase2_def next_transaction2_def
      alice_def never_def no_profile_def refund_row2_def refund_status2_def
      insert_row_def update_where_def select_maybe_single_def select_rows_def send_def
      store_def maybe_single_def from_transactions2_def from_budget_configs2_def
      from_investment_portfolios2_def Let_def)

lemma refund_row2_context:
  "tx2_category (refund_row2 e userId i r reason) = Need2
   \<and> tx2_payment_type (refund_row2 e userId i r reason) = tx2_payment_type (new_transaction2 e)"
  by (simp add: refund_row2_def)

section \<open>Reductions\<close>

text \<open>
  C3, as stated, fails: the code subtracts doubles. Reducing the purchase of \<open>2 ^ 54\<close>
  by 1 succeeds and returns an amount of \<open>2 ^ 54\<close>, not \<open>2 ^ 54 - 1\<close>, which no double
  holds.
\<close>

theorem reduceInvestmentAmount_rounds_counterexample:
  "fst (reduceInvestmentAmount calm ''t1'' 1 None (idle, large_ledger))
     = Inr (large_purchase\<lparr>tx_amount := 18014398509481984,
              tx_notes := Some (reduced_notes calm large_purchase 1 None)\<rparr>)
   \<and> tx_amount large_purchase - 1 = 18014398509481983
   \<and> (18014398509481984 :: rat) \<noteq> 18014398509481983"
  by (simp add: large_ledger_def large_purchase_def calm_def purchase_def alice_def never_def
      select_single_def update_single_def insert_row_def send_def store_def single_def
      from_transactions_def from_transaction_history_def history_row_def next_history_def
      double_minus_large)

text \<open>
  C3, amended: for a stored transaction \<open>T\<close> of the signed-in user and a reduction strictly
  below its amount, with the three requests served and a finite double difference
  \<open>a\<close> of the amount of \<open>T\<close> and the reduction, \<open>reduceInvestmentAmount\<close> returns the
  updated row \<open>T'\<close> with amount \<open>a\<close>, \<open>T'\<close> is the stored row, and the history table
  grows by exactly one row: its action is amount reduced, its old values hold the
  amount of \<open>T\<close> and its new values the amount of \<open>T'\<close>.
\<close>

theorem reduceInvestmentAmount_reduces_and_logs:
  assumes auth: "user e = Some u"
    and stored: "T \<in> set (transactions_table (tables b))"
    and owner: "tx_user_id T = uid u"
    and pk: "distinct (map tx_id (transactions_table (tables b)))"
    and fresh: "th_id (new_history e) \<notin> th_id ` set (transaction_history_table (tables b))"
    and served: "\<not> outage e 0" "\<not> outage e 1" "\<not> outage e 2"
    and less: "r < tx_amount T"
    and finite: "double_minus (tx_amount T) r = Some a"
  shows "\<exists>T' h' b' H.
      reduceInvestmentAmount e (tx_id T) r notes (h, b) = (Inr T', h', b')
    \<and> tx_amount T' = a
    \<and> filter (\<lambda>t. tx_id t = tx_id T) (transactions_table (tables b')) = [T']
    \<and> transaction_history_table (tables b') = transaction_history_table (tables b) @ [H]
    \<and> th_action H = Amount_reduced
    \<and> th_transaction_id H = tx_id T
    \<and> th_old_values H = Some (JObject [(''amount'', JNumber (tx_amount T))])
    \<and> th_new_values H = Some (JObject [(''amount'', JNumber (tx_amount T'))])"
proof -
  let ?g = "\<lambda>t. t\<lparr>tx_amount := a, tx_notes := Some (reduced_notes e T r notes)\<rparr>"
  let ?H = "history_row e u (tx_id T) (tx_amount T) a r notes"
  let ?old = "transactions_table (tables b)"
  let ?h' = "h\<lparr>transactions := map (\<lambda>t. if tx_id t = tx_id T then ?g T else t) (transactions h)\<rparr>"
  let ?b' = "b\<lparr>tables := (tables b)\<lparr>
          transactions_table := map (\<lambda>t. if tx_id t = tx_id T then ?g t else t) ?old,
          transaction_history_table := transaction_history_table (tables b) @ [?H]\<rparr>,
        requests := requests b @ [Select Transactions, Update Transactions, Insert Transaction_history]\<rparr>"
  have same: "map (\<lambda>t. if tx_id t = tx_id T \<and> tx_user_id t = uid u then ?g t else t) ?old
            = map (\<lambda>t. if tx_id t = tx_id T then ?g t else t) ?old"
  proof (rule map_cong [OF refl])
    fix t assume "t \<in> set ?old"
    moreover have "tx_id t = tx_id T \<Longrightarrow> t \<in> set ?old \<Longrightarrow> t = T"
      using pk stored by (meson distinct_map inj_onD)
    ultimately show "(if tx_id t = tx_id T \<and> tx_user_id t = uid u then ?g t else t)
                   = (if tx_id t = tx_id T then ?g t else t)"
      using owner by auto
  qed
  have run: "reduceInvestmentAmount e (tx_id T) r notes (h, b) = (Inr (?g T), ?h', ?b')"
    using reduceInvestmentAmount_served [OF assms] by (simp only: same)
  have upd: "filter (\<lambda>t. tx_id t = tx_id T) (map (\<lambda>t. if tx_id t = tx_id T then ?g t else t) ?old) = [?g T]"
    by (rule filter_key_updated [OF pk stored]) simp
  have target: "filter (\<lambda>t. tx_id t = tx_id T) (transactions_table (tables ?b')) = [?g T]"
    using upd by simp
  have hist: "transaction_history_table (tables ?b') = transaction_history_table (tables b) @ [?H]"
    by simp
  have fields: "th_action ?H = Amount_reduced \<and> th_transaction_id ?H = tx_id T
      \<and> th_old_values ?H = Some (JObject [(''amount'', JNumber (tx_amount T))])
      \<and> th_new_values ?H = Some (JObject [(''amount'', JNumber (tx_amount (?g T)))])"
    by (simp add: history_row_def)
  have amount: "tx_amount (?g T) = a" by simp
  show ?thesis
    apply (rule exI [of _ "?g T"], rule exI [of _ ?h'], rule exI [of _ ?b'], rule exI [of _ ?H])
    using run amount target hist fields by blast
qed

text \<open>
  C4: for a stored transaction \<open>T\<close> of the signed-in user and a reduction of at least
  its amount, \<open>reduceInvestmentAmount\<close> returns the error "Reduction amount cannot be
  greater than or equal to original amount"; the hook's state and every table are as
  before, and the only request sent is the read of \<open>T\<close>.
\<close>

theorem reduceInvestmentAmount_rejects_large_reduction:
  assumes auth: "user e = Some u"
    and stored: "T \<in> set (transactions_table (tables b))"
    and owner: "tx_user_id T = uid u"
    and pk: "distinct (map tx_id (transactions_table (tables b)))"
    and served: "\<not> outage e 0"
    and large: "tx_amount T \<le> r"
  shows "reduceInvestmentAmount e (tx_id T) r notes (h, b) =
     (Inl (Message ''Reduction amount cannot be greater than or equal to original amount''),
      h, b\<lparr>requests := requests b @ [Select Transactions]\<rparr>)"
proof -
  have one: "filter (\<lambda>t. tx_id t = tx_id T \<and> tx_user_id t = uid u) (transactions_table (tables b)) = [T]"
    using filter_key_unique [of tx_id "transactions_table (tables b)" T "\<lambda>t. tx_user_id t = uid u"]
      pk stored owner by simp
  show ?thesis
    using auth served large
    by (simp add: select_single_def send_def single_def from_transactions_def one
        reduction_too_large_def)
qed

theorem reduceInvestmentAmount_reduces_and_logs_witness:
  "user calm = Some alice
   \<and> purchase \<in> set (transactions_table (tables ledger))
   \<and> tx_user_id purchase = uid alice
   \<and> distinct (map tx_id (transactions_table (tables ledger)))
   \<and> th_id (new_history calm) \<notin> th_id ` set (transaction_history_table (tables ledger))
   \<and> \<not> outage calm 0 \<and> \<not> outage calm 1 \<and> \<not> outage calm 2
   \<and> 100 < tx_amount purchase
   \<and> double_minus (tx_amount purchase) 100 = Some 400
   \<and> (\<exists>T' h' b' H.
      reduceInvestmentAmount calm (tx_id purchase) 100 (Some ''overcharged'') (idle, ledger)
        = (Inr T', h', b')
    \<and> tx_amount T' = 400
    \<and> filter (\<lambda>t. tx_id t = tx_id purchase) (transactions_table (tables b')) = [T']
    \<and> transaction_history_table (tables b') = transaction_history_table (tables ledger) @ [H]
    \<and> th_action H = Amount_reduced
    \<and> th_transaction_id H = tx_id purchase
    \<and> th_old_values H = Some (JObject [(''amount'', JNumber (tx_amount purchase))])
    \<and> th_new_values H = Some (JObject [(''amount'', JNumber (tx_amount T'))]))"
proof -
  have auth: "user calm = Some alice" by (simp add: calm_def)
  have stored: "purchase \<in> set (transactions_table (tables ledger))" by (simp add: ledger_def)
  have owner: "tx_user_id purchase = uid alice" by (simp add: purchase_def alice_def)
  have pk: "distinct (map tx_id (transactions_table (tables ledger)))" by (simp add: ledger_def)
  have fresh: "th_id (new_history calm) \<notin> th_id ` set (transaction_history_table (tables ledger))"
    by (simp add: ledger_def)
  have s0: "\<not> outage calm 0" and s1: "\<not> outage calm 1" and s2: "\<not> outage calm 2"
    by (simp_all add: calm_def never_def)
  have less: "100 < tx_amount purchase" by (simp add: purchase_def)
  have finite: "double_minus (tx_amount purchase) 100 = Some 400"
    by (simp add: purchase_def double_minus_500_100)
  show ?thesis
    by (rule conjI [OF auth conjI [OF stored conjI [OF owner conjI [OF pk conjI [OF fresh
          conjI [OF s0 conjI [OF s1 conjI [OF s2 conjI [OF less conjI [OF finite
            reduceInvestmentAmount_reduces_and_logs
              [OF auth stored owner pk fresh s0 s1 s2 less finite,
               of "Some ''overcharged''" idle]]]]]]]]]]])
qed

theorem reduceInvestmentAmount_rejects_large_reduction_witness:
  "user calm = Some alice
   \<and> purchase \<in> set (transactions_table (tables ledger))
   \<and> tx_user_id purchase = uid alice
   \<and> distinct (map tx_id (transactions_table (tables ledger)))
   \<and> \<not> outage calm 0
   \<and> tx_amount purchase \<le> 500
   \<and> reduceInvestmentAmount calm (tx_id purchase) 500 None (idle, ledger) =
       (Inl (Message ''Reduction amount cannot be greater than or equal to original amount''),
        idle, ledger\<lparr>requests := requests ledger @ [Select Transactions]\<rparr>)"
proof -
  have auth: "user calm = Some alice" by (simp add: calm_def)
  have stored: "purchase \<in> set (transactions_table (tables ledger))" by (simp add: ledger_def)
  have owner: "tx_user_id purchase = uid alice" by (simp add: purchase_def alice_def)
  have pk: "distinct (map tx_id (transactions_table (tables ledger)))" by (simp add: ledger_def)
  have s0: "\<not> outage calm 0" by (simp add: calm_def never_def)
  have large: "tx_amount purchase \<le> 500" by (simp add: purchase_def)
  show ?thesis
    using auth stored owner pk s0 large
      reduceInvestmentAmount_rejects_large_reduction [OF auth stored owner pk s0 large, of None idle]
    by blast
qed

section \<open>Cumulative refunds\<close>

lemma refunded_total_update:
  assumes "\<And>t. tx_refund_for (g t) = tx_refund_for t" and "\<And>t. tx_amount (g t) = tx_amount t"
  shows "refunded_total i (map (\<lambda>t. if P t then g t else t) ts) = refunded_total i ts"
  by (induction ts) (simp_all add: refunded_total_def assms)

lemma refunded_total_append:
  "refunded_total i (ts @ [t]) =
     refunded_total i ts + (if tx_refund_for t = Some i then tx_amount t else 0)"
  by (simp add: refunded_total_def)

text \<open>
  C5, as stated, fails: a refund of 600 against the purchase of 500 is accepted, and the
  refunds recorded against the purchase then sum to 600.
\<close>

theorem refundTransaction_unchecked_total_counterexample:
  "fst (refundTransaction calm ''t1'' 600 None (idle, ledger))
     = Inr (refund_row calm alice purchase ''t1'' 600 None)
   \<and> refunded_total ''t1'' (transactions_table (tables (snd (snd
        (refundTransaction calm ''t1'' 600 None (idle, ledger)))))) = 600
   \<and> tx_amount purchase = 500 \<and> (500::rat) < 600"
  by (simp add: calm_def ledger_def purchase_def next_transaction_def alice_def never_def
      select_single_def insert_row_def update_where_def send_def store_def single_def
      from_transactions_def refund_row_def refund_status_def refunded_total_def)

text \<open>
  C5, amended: \<open>refundTransaction\<close> does not look at earlier refunds. For a stored
  transaction \<open>T\<close> of the signed-in user and any refund amount, with the three requests
  served, the call succeeds and the sum of the refunds recorded against \<open>T\<close> grows by
  exactly the refund amount, whatever the amount of \<open>T\<close> is.
\<close>

theorem refundTransaction_adds_to_refunded_total:
  assumes auth: "user e = Some u"
    and stored: "T \<in> set (transactions_table (tables b))"
    and owner: "tx_user_id T = uid u"
    and pk: "distinct (map tx_id (transactions_table (tables b)))"
    and fresh: "tx_id (new_transaction e) \<notin> tx_id ` set (transactions_table (tables b))"
    and served: "\<not> outage e 0" "\<not> outage e 1" "\<not> outage e 2"
  shows "\<exists>R h' b'.
      refundTransaction e (tx_id T) r reason (h, b) = (Inr R, h', b')
    \<and> tx_amount R = r \<and> tx_refund_for R = Some (tx_id T)
    \<and> refunded_total (tx_id T) (transactions_table (tables b'))
        = refunded_total (tx_id T) (transactions_table (tables b)) + r"
proof -
  let ?R = "refund_row e u T (tx_id T) r reason"
  let ?g = "\<lambda>t. t\<lparr>tx_status := refund_status r (tx_amount T),
                   tx_original_transaction_id := Some (tx_id (new_transaction e))\<rparr>"
  let ?old = "transactions_table (tables b)"
  let ?new = "map (\<lambda>t. if tx_id t = tx_id T then ?g t else t) ?old @ [?R]"
  let ?h' = "h\<lparr>transactions := ?R #
         map (\<lambda>t. if tx_id t = tx_id T then t\<lparr>tx_status := refund_status r (tx_amount T)\<rparr> else t)
           (transactions h)\<rparr>"
  let ?b' = "b\<lparr>tables := (tables b)\<lparr>transactions_table := ?new\<rparr>,
        requests := requests b @ [Select Transactions, Insert Transactions, Update Transactions]\<rparr>"
  have run: "refundTransaction e (tx_id T) r reason (h, b) = (Inr ?R, ?h', ?b')"
    using refundTransaction_served [OF assms] .
  have fields: "tx_amount ?R = r \<and> tx_refund_for ?R = Some (tx_id T)"
    by (simp add: refund_row_def)
  have kept: "refunded_total (tx_id T) (map (\<lambda>t. if tx_id t = tx_id T then ?g t else t) ?old)
            = refunded_total (tx_id T) ?old"
    by (rule refunded_total_update) simp_all
  have total: "refunded_total (tx_id T) (transactions_table (tables ?b'))
             = refunded_total (tx_id T) ?old + r"
    using kept fields by (simp add: refunded_total_append)
  show ?thesis
    apply (rule exI [of _ ?R], rule exI [of _ ?h'], rule exI [of _ ?b'])
    using run fields total by blast
qed

theorem refundTransaction_adds_to_refunded_total_witness:
  "user calm = Some alice
   \<and> purchase \<in> set (transactions_table (tables ledger))
   \<and> tx_user_id purchase = uid alice
   \<and> distinct (map tx_id (transactions_table (tables ledger)))
   \<and> tx_id (new_transaction calm) \<notin> tx_id ` set (transactions_table (tables ledger))
   \<and> \<not> outage calm 0 \<and> \<not> outage calm 1 \<and> \<not> outage calm 2
   \<and> (\<exists>R h' b'.
      refundTransaction calm (tx_id purchase) 600 None (idle, ledger) = (Inr R, h', b')
    \<and> tx_amount R = 600 \<and> tx_refund_for R = Some (tx_id purchase)
    \<and> refunded_total (tx_id purchase) (transactions_table (tables b'))
        = refunded_total (tx_id purchase) (transactions_table (tables ledger)) + 600)"
proof -
  have auth: "user calm = Some alice" by (simp add: calm_def)
  have stored: "purchase \<in> set (transactions_table (tables ledger))" by (simp add: ledger_def)
  have owner: "tx_user_id purchase = uid alice" by (simp add: purchase_def alice_def)
  have pk: "distinct (map tx_id (transactions_table (tables ledger)))" by (simp add: ledger_def)
  have fresh: "tx_id (new_transaction calm) \<notin> tx_id ` set (transactions_table (tables ledger))"
    by (simp add: calm_def ledger_def next_transaction_def purchase_def)
  have s0: "\<not> outage calm 0" and s1: "\<not> outage calm 1" and s2: "\<not> outage calm 2"
    by (simp_all add: calm_def never_def)
  show ?thesis
    using auth stored owner pk fresh s0 s1 s2
      refundTransaction_adds_to_refunded_total [OF auth stored owner pk fresh s0 s1 s2,
        of 600 None idle]
    by blast
qed

section \<open>Failures\<close>

text \<open>
  C6, as stated, fails. In the second version of the hook the status update of a refund
  fails and the operation throws, yet the refund row inserted just before stays in the
  table beside the untouched original. In \<open>useBudgetData.ts\<close> the same failure is not
  even reported: the call returns the refund, and the original is still active.
\<close>

theorem refund_survives_failed_update_counterexample:
  "fst (refundTransaction2 flaky2 ''t1'' 500 ''broken'' (showing2, ledger2)) = Inl Unavailable
   \<and> transactions_table2 (tables (snd (snd
        (refundTransaction2 flaky2 ''t1'' 500 ''broken'' (showing2, ledger2)))))
      = [purchase2, refund_row2 flaky2 ''u1'' ''t1'' 500 ''broken'']
   \<and> transactions_table2 (tables ledger2) = [purchase2]
   \<and> fst (refundTransaction flaky ''t1'' 500 None (idle, ledger))
      = Inr (refund_row flaky alice purchase ''t1'' 500 None)
   \<and> transactions_table (tables (snd (snd
        (refundTransaction flaky ''t1'' 500 None (idle, ledger)))))
      = [purchase, refund_row flaky alice purchase ''t1'' 500 None]
   \<and> tx_status purchase = Active"
  by (simp add: flaky2_def calm2_def ledger2_def purchase2_def next_transaction2_def alice_def
      at_request_def no_profile_def refund_row2_def
      flaky_def calm_def ledger_def purchase_def next_transaction_def refund_row_def
      select_single_def insert_row_def update_where_def send_def store_def single_def
      from_transactions_def from_transactions2_def)

text \<open>
  C6, amended: whenever \<open>refundTransaction\<close> or \<open>reduceInvestmentAmount\<close> of
  \<open>useBudgetData.ts\<close> returns an error, the hook's state and every table are as before
  the call: each error they return arises before their first write.
\<close>

theorem failed_reconciliation_writes_nothing:
  "(refundTransaction e i r n (h, b) = (Inl err, h', b') \<longrightarrow> h' = h \<and> tables b' = tables b)
   \<and> (reduceInvestmentAmount e i r n (h, b) = (Inl err, h', b') \<longrightarrow> h' = h \<and> tables b' = tables b)"
proof (intro conjI impI)
  assume "refundTransaction e i r n (h, b) = (Inl err, h', b')"
  then show "h' = h" and "tables b' = tables b"
    by (auto simp: select_single_def insert_row_def update_where_def send_def store_def Let_def
        split: option.splits sum.splits if_splits prod.splits)
next
  assume "reduceInvestmentAmount e i r n (h, b) = (Inl err, h', b')"
  then show "h' = h" and "tables b' = tables b"
    by (auto simp: select_single_def insert_row_def update_single_def send_def store_def Let_def
        split: option.splits sum.splits if_splits prod.splits)
qed

theorem failed_reconciliation_writes_nothing_witness:
  "refundTransaction stalled ''t1'' 500 None (idle, ledger)
      = (Inl Unavailable, idle,
         ledger\<lparr>requests := [Select Transactions, Insert Transactions]\<rparr>)
   \<and> (idle = idle
      \<and> tables (ledger\<lparr>requests := [Select Transactions, Insert Transactions]\<rparr>) = tables ledger)
   \<and> reduceInvestmentAmount calm ''t1'' 500 None (idle, ledger)
      = (Inl reduction_too_large, idle, ledger\<lparr>requests := [Select Transactions]\<rparr>)
   \<and> (idle = idle
      \<and> tables (ledger\<lparr>requests := [Select Transactions]\<rparr>) = tables ledger)"
proof -
  have run1: "refundTransaction stalled ''t1'' 500 None (idle, ledger)
      = (Inl Unavailable, idle,
         ledger\<lparr>requests := [Select Transactions, Insert Transactions]\<rparr>)"
    by (simp add: stalled_def calm_def ledger_def purchase_def alice_def at_request_def
        select_single_def insert_row_def send_def single_def from_transactions_def)
  have run2: "reduceInvestmentAmount calm ''t1'' 500 None (idle, ledger)
      = (Inl reduction_too_large, idle, ledger\<lparr>requests := [Select Transactions]\<rparr>)"
    by (simp add: calm_def ledger_def purchase_def alice_def never_def
        select_single_def send_def single_def from_transactions_def)
  note both1 = failed_reconciliation_writes_nothing
      [of stalled "''t1''" 500 None idle ledger Unavailable idle
          "ledger\<lparr>requests := [Select Transactions, Insert Transactions]\<rparr>"]
  note both2 = failed_reconciliation_writes_nothing
      [of calm "''t1''" 500 None idle ledger reduction_too_large idle
          "ledger\<lparr>requests := [Select Transactions]\<rparr>"]
  show ?thesis
    by (rule conjI [OF run1 conjI [OF mp [OF conjunct1 [OF both1] run1]
          conjI [OF run2 mp [OF conjunct2 [OF both2] run2]]]])
qed

section \<open>Reads\<close>

text \<open>
  C7 fails on the transactions read of \<open>fetchBudgetData\<close> in \<open>useBudgetData.ts\<close>: the
  query has no condition on \<open>is_deleted\<close>, so a soft-deleted row of the user is
  returned and shown.
\<close>

theorem fetchTransactions_returns_deleted:
  "transactions (fst (fetchTransactions calm None (idle, ledger_after_removal))) = [removed]
   \<and> tx_is_deleted removed = True"
  by (simp add: calm_def ledger_after_removal_def removed_def purchase_def alice_def never_def
      transactionQuery_def select_rows_def send_def from_transactions_def newest_first_def)

text \<open>
  The read of the second version does exclude deleted rows: its query carries the
  condition \<open>is_deleted = false\<close>.
\<close>

lemma set_insert_latest: "set (insert_latest t ts) = insert t (set ts)"
  by (induction ts) auto

lemma set_latest_first: "set (latest_first ts) = set ts"
  by (induction ts) (simp_all add: latest_first_def set_insert_latest)

lemma fetchBudgetData2_hides_deleted:
  assumes "\<forall>t\<in>set (transactions2 h). \<not> tx2_is_deleted t"
  shows "\<forall>t\<in>set (transactions2 (fst (fetchBudgetData2 e k (h, b)))). \<not> tx2_is_deleted t"
  using assms
  by (auto simp: select_maybe_single_def select_rows_def send_def failed2_def Let_def
      set_latest_first from_transactions2_def
      split: option.splits sum.splits if_splits prod.splits)

lemma fetchBudgetData2_hides_removed:
  "transactions2 (fst (fetchBudgetData2 calm2 0 (showing2, ledger2_after_removal))) = []"
  by (simp add: calm2_def ledger2_after_removal_def removed2_def purchase2_def alice_def
      never_def no_profile_def select_maybe_single_def select_rows_def send_def
      maybe_single_def from_budget_configs2_def from_investment_portfolios2_def
      from_transactions2_def latest_first_def)

section \<open>Soft delete\<close>












section \<open>Signed out\<close>

text \<open>
  C9: with no signed-in user, each of the nine exported mutations returns the error
  "User not authenticated" and leaves the hook's state and the backend, its log of
  requests included, exactly as they were.
\<close>

theorem signed_out_operations_touch_nothing:
  assumes "user e = None"
  shows "saveBudgetConfig e config (h, b) = (Inl (Message ''User not authenticated''), h, b)
    \<and> saveInvestmentPortfolio e portfolio (h, b) = (Inl (Message ''User not authenticated''), h, b)
    \<and> updateInvestmentPortfolio e i pupdates (h, b) = (Inl (Message ''User not authenticated''), h, b)
    \<and> deleteInvestmentPortfolio e i (h, b) = (Inl (Message ''User not authenticated''), h, b)
    \<and> addTransaction e transaction (h, b) = (Inl (Message ''User not authenticated''), h, b)
    \<and> updateTransaction e i updates (h, b) = (Inl (Message ''User not authenticated''), h, b)
    \<and> deleteTransaction e i softDelete (h, b) = (Inl (Message ''User not authenticated''), h, b)
    \<and> refundTransaction e i r notes (h, b) = (Inl (Message ''User not authenticated''), h, b)
    \<and> reduceInvestmentAmount e i r notes (h, b) = (Inl (Message ''User not authenticated''), h, b)"
  using assms by (simp add: not_authenticated_def)

theorem signed_out_operations_touch_nothing_witness:
  "user signed_out = None
   \<and> (saveBudgetConfig signed_out
        \<lparr>monthly_salary = 1000, budget_percentage = 100, allocation_need = 50,
         allocation_want = 30, allocation_savings = 10, allocation_investments = 10\<rparr>
        (idle, ledger) = (Inl (Message ''User not authenticated''), idle, ledger)
   \<and> saveInvestmentPortfolio signed_out [Pcol_name ''Fund''] (idle, ledger)
        = (Inl (Message ''User not authenticated''), idle, ledger)
   \<and> updateInvestmentPortfolio signed_out ''t1'' [Pcol_name ''Fund''] (idle, ledger)
        = (Inl (Message ''User not authenticated''), idle, ledger)
   \<and> deleteInvestmentPortfolio signed_out ''t1'' (idle, ledger)
        = (Inl (Message ''User not authenticated''), idle, ledger)
   \<and> addTransaction signed_out [Col_amount 20] (idle, ledger)
        = (Inl (Message ''User not authenticated''), idle, ledger)
   \<and> updateTransaction signed_out ''t1'' [Col_amount 20] (idle, ledger)
        = (Inl (Message ''User not authenticated''), idle, ledger)
   \<and> deleteTransaction signed_out ''t1'' True (idle, ledger)
        = (Inl (Message ''User not authenticated''), idle, ledger)
   \<and> refundTransaction signed_out ''t1'' 200 None (idle, ledger)
        = (Inl (Message ''User not authenticated''), idle, ledger)
   \<and> reduceInvestmentAmount signed_out ''t1'' 200 None (idle, ledger)
        = (Inl (Message ''User not authenticated''), idle, ledger))"
proof -
  have out: "user signed_out = None" by (simp add: signed_out_def)
  show ?thesis
    by (rule conjI [OF out signed_out_operations_touch_nothing [OF out,
        of "\<lparr>monthly_salary = 1000, budget_percentage = 100, allocation_need = 50,
             allocation_want = 30, allocation_savings = 10, allocation_investments = 10\<rparr>"
           idle ledger "[Pcol_name ''Fund'']" "''t1''" "[Pcol_name ''Fund'']" "[Col_amount 20]"
           "[Col_amount 20]" True 200 None]])
qed

section \<open>Frame of a reduction\<close>

lemma reduceInvestmentAmount_success:
  assumes "reduceInvestmentAmount e i r notes (h, b) = (Inr d, h', b')"
  shows "case user e of
      None \<Rightarrow> False
    | Some u \<Rightarrow>
       (case single (filter (\<lambda>t. tx_id t = i \<and> tx_user_id t = uid u)
                      (transactions_table (tables b))) of
          Inl err \<Rightarrow> False
        | Inr T \<Rightarrow>
           (case double_minus (tx_amount T) r of
              None \<Rightarrow> False
            | Some a \<Rightarrow>
                transactions_table (tables b') =
                  map (\<lambda>t. if tx_id t = i \<and> tx_user_id t = uid u
                            then t\<lparr>tx_amount := a,
                                   tx_notes := Some (reduced_notes e T r notes)\<rparr>
                            else t)
                    (transactions_table (tables b))
              \<and> profiles_table (tables b') = profiles_table (tables b)
              \<and> budget_configs_table (tables b') = budget_configs_table (tables b)
              \<and> investment_portfolios_table (tables b')
                  = investment_portfolios_table (tables b)))"
  using assms
  by (auto simp: select_single_def insert_row_def update_single_def send_def store_def
      from_transactions_def from_transaction_history_def
      simp del: map_eq_conv
      split: option.splits sum.splits if_splits prod.splits)

text \<open>
  C10: when \<open>reduceInvestmentAmount\<close> succeeds, the transactions table after the call
  has the rows of the table before it, in the same order; each row agrees with its
  earlier self on every column other than \<open>amount\<close> and \<open>notes\<close>, and a row with another
  id is unchanged altogether. The tables of profiles, budget configs and portfolios are
  unchanged.
\<close>

theorem reduceInvestmentAmount_frame:
  assumes "reduceInvestmentAmount e i r notes (h, b) = (Inr d, h', b')"
  shows "list_all2 (\<lambda>t t'. keeps_other_columns t t' \<and> (tx_id t \<noteq> i \<longrightarrow> t' = t))
      (transactions_table (tables b)) (transactions_table (tables b'))
    \<and> profiles_table (tables b') = profiles_table (tables b)
    \<and> budget_configs_table (tables b') = budget_configs_table (tables b)
    \<and> investment_portfolios_table (tables b') = investment_portfolios_table (tables b)"
proof -
  note success = reduceInvestmentAmount_success [OF assms]
  show ?thesis
  proof (cases "user e")
    case None
    with success show ?thesis by simp
  next
    case (Some u)
    show ?thesis
    proof (cases "single (filter (\<lambda>t. tx_id t = i \<and> tx_user_id t = uid u)
                            (transactions_table (tables b)))")
      case (Inl err)
      with Some success show ?thesis by simp
    next
      case (Inr T)
      show ?thesis
      proof (cases "double_minus (tx_amount T) r")
        case None
        with Inr Some success show ?thesis by simp
      next
        case (Some a)
        let ?f = "\<lambda>t. if tx_id t = i \<and> tx_user_id t = uid u
                      then t\<lparr>tx_amount := a,
                             tx_notes := Some (reduced_notes e T r notes)\<rparr>
                      else t"
        from Some Inr \<open>user e = Some u\<close> success have
          tbl: "transactions_table (tables b') = map ?f (transactions_table (tables b))"
          and rest: "profiles_table (tables b') = profiles_table (tables b)"
            "budget_configs_table (tables b') = budget_configs_table (tables b)"
            "investment_portfolios_table (tables b') = investment_portfolios_table (tables b)"
          by simp_all
        have row: "keeps_other_columns t (?f t) \<and> (tx_id t \<noteq> i \<longrightarrow> ?f t = t)" for t
          by (simp add: keeps_other_columns_def)
        have "list_all2 (\<lambda>t t'. keeps_other_columns t t' \<and> (tx_id t \<noteq> i \<longrightarrow> t' = t))
            (transactions_table (tables b)) (map ?f (transactions_table (tables b)))"
          unfolding list_all2_map2 by (rule list.rel_refl_strong) (rule row)
        with rest tbl show ?thesis by simp
      qed
    qed
  qed
qed

theorem reduceInvestmentAmount_frame_witness:
  "reduceInvestmentAmount calm ''t1'' 100 (Some ''overcharged'') (idle, ledger)
     = (Inr reduced_purchase, idle, ledger_after_reduction)
   \<and> (list_all2 (\<lambda>t t'. keeps_other_columns t t' \<and> (tx_id t \<noteq> ''t1'' \<longrightarrow> t' = t))
        (transactions_table (tables ledger)) (transactions_table (tables ledger_after_reduction))
   \<and> profiles_table (tables ledger_after_reduction) = profiles_table (tables ledger)
   \<and> budget_configs_table (tables ledger_after_reduction) = budget_configs_table (tables ledger)
   \<and> investment_portfolios_table (tables ledger_after_reduction)
       = investment_portfolios_table (tables ledger))"
proof -
  have run: "reduceInvestmentAmount calm ''t1'' 100 (Some ''overcharged'') (idle, ledger)
     = (Inr reduced_purchase, idle, ledger_after_reduction)"
    by (simp add: ledger_def idle_def select_single_def update_single_def insert_row_def
        send_def store_def single_def from_transactions_def from_transaction_history_def
        calm_def never_def alice_def purchase_def history_row_def next_history_def
        reduced_purchase_def ledger_after_reduction_def double_minus_500_100)
  show ?thesis
    by (rule conjI [OF run reduceInvestmentAmount_frame [OF run]])
qed

end
